theory Spec2Isabelle
  imports Complex_Main
begin

chapter \<open>The model\<close>

section \<open>Exceptions\<close>

text \<open>
  The Python exceptions that the modelled code can raise. A function that can raise
  returns \<open>error + 'a\<close>, with \<open>Inl\<close> for the exception.
\<close>

datatype error =
    TypeError
  | AttributeError
  | IndexError
  | ValueError
  | RuntimeError
  | AssertionError
  | NotImplementedError
  | UnboundLocalError

section \<open>The image encoder (networks/seq2seq/model3d/encoder.py)\<close>

text \<open>
  The constructor arguments of \<open>nn.Conv3d\<close> as \<open>ImageEncoder.__init__\<close> passes them.
\<close>

record conv3d =
  in_channels :: nat
  out_channels :: nat
  kernel_size :: nat
  stride :: nat
  padding :: nat

text \<open>
  The entries of the \<open>args\<close> dictionary that the latent convolutions of the encoder read.
\<close>

record encoder_args =
  latent_space_dim :: nat
  vq_beta :: real
  vq_n_embed :: nat

text \<open>
  \<^verbatim>\<open>self.p = nn.Conv3d(args['latent_space_dim'], args['latent_space_dim']*2*2*2,
                     kernel_size=2, stride=2, padding=0)\<close>
\<close>

definition encoder_p :: "encoder_args \<Rightarrow> conv3d" where
  "encoder_p args =
     \<lparr>in_channels = latent_space_dim args,
      out_channels = latent_space_dim args * 2 * 2 * 2,
      kernel_size = 2, stride = 2, padding = 0\<rparr>"

section \<open>Source, target and segmentation codes (inference/predict_from_raw_data.py)\<close>

text \<open>
  The entries of a case's \<open>properties\<close> dictionary that the predictor reads:
  the number of sequences the network knows and, in the order of the channels of the
  case's data, the sequence index of every channel that is present.
\<close>

record properties =
  num_channel :: nat
  available_channel :: "nat list"

text \<open>
  A code is a two-dimensional tensor: one row of slots for every batch entry.
\<close>

type_synonym code = "real list list"

text \<open>
  \<^verbatim>\<open>F.one_hot(torch.from_numpy(np.array([tgt_seq])), num_classes=n)\<close>: torch raises a
  \<open>RuntimeError\<close> when the class value is not smaller than \<open>num_classes\<close>.
\<close>

definition one_hot :: "nat \<Rightarrow> nat \<Rightarrow> error + code" where
  "one_hot tgt_seq n =
     (if tgt_seq < n then Inr [map (\<lambda>i. if i = tgt_seq then 1 else 0) [0..<n]]
      else Inl RuntimeError)"

text \<open>
  \<^verbatim>\<open>torch.cat([a, b, c], dim=1)\<close> of two-dimensional tensors: the sizes of dimension 0
  must agree.
\<close>

definition cat_dim1 :: "code \<Rightarrow> code \<Rightarrow> code \<Rightarrow> error + code" where
  "cat_dim1 a b c =
     (if length a = length b \<and> length b = length c
      then Inr (map (\<lambda>(x, y, z). x @ y @ z) (zip a (zip b c)))
      else Inl RuntimeError)"

text \<open>
  Lines 685 to 687 of \<open>_internal_maybe_mirror_and_predict\<close>:
  \<^verbatim>\<open>tsf_src_code = [1 if i in properties['available_channel'] else 0
                  for i in range(properties['num_channel'])]   (unsqueezed at 0)
  tsf_tgt_code = cat([tsf_src_code, target_code, zeros((target_code.shape[0], 1))], dim=1)
  tsf_seg_code = cat([tsf_src_code, zeros_like(target_code),
                      ones((target_code.shape[0], 1))], dim=1)\<close>
\<close>

definition tsf_src_code :: "properties \<Rightarrow> code" where
  "tsf_src_code props =
     [map (\<lambda>i. if i \<in> set (available_channel props) then 1 else 0) [0..<num_channel props]]"

definition tsf_tgt_code :: "properties \<Rightarrow> code \<Rightarrow> error + code" where
  "tsf_tgt_code props target_code =
     cat_dim1 (tsf_src_code props) target_code (replicate (length target_code) [0])"

definition tsf_seg_code :: "properties \<Rightarrow> code \<Rightarrow> error + code" where
  "tsf_seg_code props target_code =
     cat_dim1 (tsf_src_code props) (map (map (\<lambda>_. 0)) target_code)
       (replicate (length target_code) [1])"

text \<open>
  Lines 243 and 246 of \<open>predict_from_files\<close>, for the task-specific contribution table:
  \<^verbatim>\<open>tgt_code = [1 if i!=tgt_id else 0 for i in range(n)]
           + [1 if i==tgt_id else 0 for i in range(n)] + [0]      (unsqueezed at 0)
  seg_code = [1 for i in range(n)] + [0 for i in range(n)] + [1]  (unsqueezed at 0)\<close>
\<close>

definition files_tgt_code :: "nat \<Rightarrow> nat \<Rightarrow> code" where
  "files_tgt_code n tgt_id =
     [map (\<lambda>i. if i \<noteq> tgt_id then 1 else 0) [0..<n] @
      map (\<lambda>i. if i = tgt_id then 1 else 0) [0..<n] @ [0]]"

definition files_seg_code :: "nat \<Rightarrow> code" where
  "files_seg_code n = [map (\<lambda>i. 1) [0..<n] @ map (\<lambda>i. 0) [0..<n] @ [1]]"

text \<open>
  The layout that the specification gives to a fused code of \<open>n\<close> sequences: \<open>src\<close> tells
  which sequences are sources, \<open>tgt\<close> is the target index of a translation code and
  \<open>None\<close> for a segmentation code.
\<close>

definition fused_layout :: "nat \<Rightarrow> (nat \<Rightarrow> bool) \<Rightarrow> nat option \<Rightarrow> real list \<Rightarrow> bool" where
  "fused_layout n src tgt c \<longleftrightarrow>
     length c = 2 * n + 1 \<and>
     take n c = map (\<lambda>i. if src i then 1 else 0) [0..<n] \<and>
     take n (drop n c) = map (\<lambda>i. if Some i = tgt then 1 else 0) [0..<n] \<and>
     c ! (2 * n) = (if tgt = None then 1 else 0)"

section \<open>Input and output lists (\<open>_manage_input_and_output_lists\<close>)\<close>

text \<open>
  \<^verbatim>\<open>os.path.basename\<close> keeps what follows the last slash, and \<^verbatim>\<open>os.path.join\<close> of two
  components restarts at an absolute second component and inserts a slash unless the first
  component is empty or ends with one.
\<close>

definition basename :: "string \<Rightarrow> string" where
  "basename p = rev (takeWhile (\<lambda>c. c \<noteq> CHR ''/'') (rev p))"

definition join :: "string \<Rightarrow> string \<Rightarrow> string" where
  "join a b =
     (if b \<noteq> [] \<and> hd b = CHR ''/'' then b
      else if a = [] \<or> last a = CHR ''/'' then a @ b
      else a @ ''/'' @ b)"

text \<open>
  Python's extended slice \<^verbatim>\<open>xs[start::step]\<close>: a zero step raises \<open>ValueError\<close>, a
  negative start counts from the end, and a negative step walks backwards.
\<close>

definition slice_from_step :: "'a list \<Rightarrow> int \<Rightarrow> int \<Rightarrow> error + 'a list" where
  "slice_from_step xs start step =
     (let n = int (length xs) in
      if step = 0 then Inl ValueError
      else if 0 < step then
        (let s = (if start < 0 then max (start + n) 0 else min start n)
         in Inr (map (\<lambda>k. xs ! nat (s + int k * step)) [0..<nat ((n - s + step - 1) div step)]))
      else
        (let s = (if start < 0 then max (start + n) (- 1) else min start (n - 1))
         in Inr (map (\<lambda>k. xs ! nat (s + int k * step)) [0..<nat ((s - step) div (- step))])))"

text \<open>
  \<^verbatim>\<open>[xs[i] for i in idx]\<close>: the first index out of range raises \<open>IndexError\<close>.
\<close>

fun select :: "'a list \<Rightarrow> nat list \<Rightarrow> error + 'a list" where
  "select xs [] = Inr []"
| "select xs (i # idx) =
     (if i < length xs
      then (case select xs idx of Inl e \<Rightarrow> Inl e | Inr ys \<Rightarrow> Inr (xs ! i # ys))
      else Inl IndexError)"

text \<open>
  \<^verbatim>\<open>[os.path.basename(i[0])[:-(len(file_ending) + 5)] for i in lists]\<close>: a case without
  files raises \<open>IndexError\<close>.
\<close>

fun caseids_of :: "string \<Rightarrow> string list list \<Rightarrow> error + string list" where
  "caseids_of file_ending [] = Inr []"
| "caseids_of file_ending (c # cs) =
     (case c of
        [] \<Rightarrow> Inl IndexError
      | f # _ \<Rightarrow>
          (case caseids_of file_ending cs of
             Inl e \<Rightarrow> Inl e
           | Inr ids \<Rightarrow>
               Inr (take (length (basename f) - (length file_ending + 5)) (basename f) # ids)))"

text \<open>
  The two forms of the source argument (a folder or a list of cases, each a list of files)
  and the three forms of the output argument (nothing, a folder, or a list of truncated
  output file names).
\<close>

datatype source_arg = SourceFolder string | SourceLists "string list list"

datatype output_arg = OutputNone | OutputFolder string | OutputList "string list"

text \<open>
  What the function reads from outside: the file ending of \<open>dataset.json\<close>, the files
  that exist (\<open>isfile\<close>) and \<open>create_lists_from_splitted_dataset_folder\<close>, which lives in
  \<open>nnseq2seq.utilities.utils\<close>.
\<close>

record file_env =
  file_ending :: string
  isfile :: "string \<Rightarrow> bool"
  create_lists_from_splitted_dataset_folder :: "string \<Rightarrow> string \<Rightarrow> string list list"

text \<open>
  Lines 170 to 187: the cases of this process, their truncated output names and their
  segmentations of the previous stage, before any case is removed.
\<close>

definition listed_cases ::
  "file_env \<Rightarrow> source_arg \<Rightarrow> output_arg \<Rightarrow> string option \<Rightarrow> int \<Rightarrow> int \<Rightarrow>
   error + (string list list \<times> string list option \<times> string option list)" where
  "listed_cases env list_of_lists_or_source_folder output_folder_or_list_of_truncated_output_files
     folder_with_segs_from_prev_stage part_id num_parts =
     (let list_of_lists0 = (case list_of_lists_or_source_folder of
                      SourceFolder f \<Rightarrow> create_lists_from_splitted_dataset_folder env f (file_ending env)
                    | SourceLists l \<Rightarrow> l)
      in case slice_from_step list_of_lists0 part_id num_parts of
           Inl e \<Rightarrow> Inl e
         | Inr list_of_lists \<Rightarrow>
             (case caseids_of (file_ending env) list_of_lists of
                Inl e \<Rightarrow> Inl e
              | Inr caseids \<Rightarrow>
                  (let output_filename_truncated =
                         (case output_folder_or_list_of_truncated_output_files of
                            OutputFolder f \<Rightarrow> Some (map (join f) caseids)
                          | OutputList l \<Rightarrow> Some l
                          | OutputNone \<Rightarrow> None);
                       seg_from_prev_stage_files =
                         map (\<lambda>i. case folder_with_segs_from_prev_stage of
                                     Some f \<Rightarrow> Some (join f (i @ file_ending env))
                                   | None \<Rightarrow> None) caseids
                   in Inr (list_of_lists, output_filename_truncated, seg_from_prev_stage_files))))"


definition not_existing_indices :: "file_env \<Rightarrow> bool \<Rightarrow> string list \<Rightarrow> nat list" where
  "not_existing_indices env save_probabilities outs =
     (let tmp = map (\<lambda>i. isfile env (i @ file_ending env)) outs;
          tmp' = (if save_probabilities
                  then map (\<lambda>(i, j). i \<and> j) (zip tmp (map (\<lambda>i. isfile env (i @ ''.npz'')) outs))
                  else tmp)
      in map fst (filter (\<lambda>(i, j). \<not> j) (zip [0..<length tmp'] tmp')))"

definition manage_input_and_output_lists ::
  "file_env \<Rightarrow> source_arg \<Rightarrow> output_arg \<Rightarrow> string option \<Rightarrow> bool \<Rightarrow> int \<Rightarrow> int \<Rightarrow> bool \<Rightarrow>
   error + (string list list \<times> string list option \<times> string option list)" where
  "manage_input_and_output_lists env list_of_lists_or_source_folder
     output_folder_or_list_of_truncated_output_files folder_with_segs_from_prev_stage
     overwrite part_id num_parts save_probabilities =
     (case listed_cases env list_of_lists_or_source_folder
             output_folder_or_list_of_truncated_output_files folder_with_segs_from_prev_stage
             part_id num_parts of
        Inl e \<Rightarrow> Inl e
      | Inr (list_of_lists, output_filename_truncated, seg_from_prev_stage_files) \<Rightarrow>
          (case output_filename_truncated of
             Some outs \<Rightarrow>
               (if \<not> overwrite then
                  (let idx = not_existing_indices env save_probabilities outs in
                   case select outs idx of
                     Inl e \<Rightarrow> Inl e
                   | Inr outs' \<Rightarrow>
                       (case select list_of_lists idx of
                          Inl e \<Rightarrow> Inl e
                        | Inr list_of_lists' \<Rightarrow>
                            (case select seg_from_prev_stage_files idx of
                               Inl e \<Rightarrow> Inl e
                             | Inr segs' \<Rightarrow> Inr (list_of_lists', Some outs', segs'))))
                else Inr (list_of_lists, output_filename_truncated, seg_from_prev_stage_files))
           | None \<Rightarrow> Inr (list_of_lists, output_filename_truncated, seg_from_prev_stage_files)))"

section \<open>Floating-point values and tensors\<close>

text \<open>
  A floating-point value is a real number, an infinity or NaN. The arithmetic follows
  IEEE 754 on the special values; rounding, the finite range of a format and the sign of
  zero are left out, so a finite result is the exact real result.
\<close>

datatype fval = Fin real | PInf | NInf | NaN

fun fneg :: "fval \<Rightarrow> fval" where
  "fneg (Fin a) = Fin (- a)"
| "fneg PInf = NInf"
| "fneg NInf = PInf"
| "fneg NaN = NaN"

fun fadd :: "fval \<Rightarrow> fval \<Rightarrow> fval" where
  "fadd (Fin a) (Fin b) = Fin (a + b)"
| "fadd NaN _ = NaN"
| "fadd _ NaN = NaN"
| "fadd PInf NInf = NaN"
| "fadd NInf PInf = NaN"
| "fadd PInf _ = PInf"
| "fadd _ PInf = PInf"
| "fadd NInf _ = NInf"
| "fadd _ NInf = NInf"

definition fsub :: "fval \<Rightarrow> fval \<Rightarrow> fval" where
  "fsub a b = fadd a (fneg b)"

fun fabs :: "fval \<Rightarrow> fval" where
  "fabs (Fin a) = Fin \<bar>a\<bar>"
| "fabs PInf = PInf"
| "fabs NInf = PInf"
| "fabs NaN = NaN"

text \<open>The infinity with the sign of a real number that is not zero.\<close>

definition signed_inf :: "real \<Rightarrow> fval" where
  "signed_inf a = (if 0 < a then PInf else NInf)"

fun fmul :: "fval \<Rightarrow> fval \<Rightarrow> fval" where
  "fmul (Fin a) (Fin b) = Fin (a * b)"
| "fmul NaN _ = NaN"
| "fmul _ NaN = NaN"
| "fmul (Fin a) PInf = (if a = 0 then NaN else signed_inf a)"
| "fmul (Fin a) NInf = (if a = 0 then NaN else signed_inf (- a))"
| "fmul PInf (Fin b) = (if b = 0 then NaN else signed_inf b)"
| "fmul NInf (Fin b) = (if b = 0 then NaN else signed_inf (- b))"
| "fmul PInf PInf = PInf"
| "fmul NInf NInf = PInf"
| "fmul PInf NInf = NInf"
| "fmul NInf PInf = NInf"

fun fdiv :: "fval \<Rightarrow> fval \<Rightarrow> fval" where
  "fdiv (Fin a) (Fin b) =
     (if b = 0 then (if a = 0 then NaN else signed_inf a) else Fin (a / b))"
| "fdiv NaN _ = NaN"
| "fdiv _ NaN = NaN"
| "fdiv (Fin a) PInf = Fin 0"
| "fdiv (Fin a) NInf = Fin 0"
| "fdiv PInf (Fin b) = (if b < 0 then NInf else PInf)"
| "fdiv NInf (Fin b) = (if b < 0 then PInf else NInf)"
| "fdiv PInf PInf = NaN"
| "fdiv PInf NInf = NaN"
| "fdiv NInf PInf = NaN"
| "fdiv NInf NInf = NaN"

fun isinf :: "fval \<Rightarrow> bool" where
  "isinf PInf = True"
| "isinf NInf = True"
| "isinf _ = False"

text \<open>
  A tensor is a scalar or a list of tensors along its first dimension.
\<close>

datatype tensor = Sc fval | Dim "tensor list"

fun shape :: "tensor \<Rightarrow> nat list" where
  "shape (Sc v) = []"
| "shape (Dim []) = [0]"
| "shape (Dim (t # ts)) = Suc (length ts) # shape t"

definition ndim :: "tensor \<Rightarrow> nat" where
  "ndim t = length (shape t)"

fun tmap :: "(fval \<Rightarrow> fval) \<Rightarrow> tensor \<Rightarrow> tensor" where
  "tmap f (Sc v) = Sc (f v)"
| "tmap f (Dim ts) = Dim (map (tmap f) ts)"

fun elements :: "tensor \<Rightarrow> fval list" where
  "elements (Sc v) = [v]"
| "elements (Dim ts) = concat (map elements ts)"

fun zeros :: "nat list \<Rightarrow> tensor" where
  "zeros [] = Sc (Fin 0)"
| "zeros (n # ns) = Dim (replicate n (zeros ns))"

text \<open>
  Two tensors of the same shape, and an operation on their elements. The operations of
  torch that combine two tensors are used here on equal shapes only (or on the shapes of
  \<open>channel_wise\<close> below); on other shapes torch broadcasts or raises, and the model raises.
\<close>

fun same_shape :: "tensor \<Rightarrow> tensor \<Rightarrow> bool" where
  "same_shape (Sc a) (Sc b) = True"
| "same_shape (Dim as) (Dim bs) = list_all2 same_shape as bs"
| "same_shape _ _ = False"

lemma size_tensor_member: "t \<in> set ts \<Longrightarrow> size t < Suc (size_list size ts)"
  by (simp add: less_Suc_eq_le size_list_estimation')

function tzip :: "(fval \<Rightarrow> fval \<Rightarrow> fval) \<Rightarrow> tensor \<Rightarrow> tensor \<Rightarrow> tensor" where
  "tzip f (Sc a) (Sc b) = Sc (f a b)"
| "tzip f (Dim as) (Dim bs) = Dim (map (\<lambda>(a, b). tzip f a b) (zip as bs))"
| "tzip f (Sc a) (Dim bs) = Sc a"
| "tzip f (Dim as) (Sc b) = Dim as"
  by pat_completeness auto
termination
  by (relation "measure (\<lambda>(f, a, b). size a)")
    (auto dest!: set_zip_leftD intro: size_tensor_member)

definition elementwise :: "(fval \<Rightarrow> fval \<Rightarrow> fval) \<Rightarrow> tensor \<Rightarrow> tensor \<Rightarrow> error + tensor" where
  "elementwise f a b = (if same_shape a b then Inr (tzip f a b) else Inl RuntimeError)"

text \<open>
  A list of results is a result: the first exception wins, as in a loop that stops at it.
\<close>

fun all_ok :: "(error + 'a) list \<Rightarrow> error + 'a list" where
  "all_ok [] = Inr []"
| "all_ok (Inl e # rs) = Inl e"
| "all_ok (Inr x # rs) = (case all_ok rs of Inl e \<Rightarrow> Inl e | Inr xs \<Rightarrow> Inr (x # xs))"

definition dim_of :: "error + tensor list \<Rightarrow> error + tensor" where
  "dim_of r = (case r of Inl e \<Rightarrow> Inl e | Inr ts \<Rightarrow> Inr (Dim ts))"

text \<open>
  \<^verbatim>\<open>torch.flip(t, dims)\<close> reverses the tensor along every listed dimension; a dimension
  out of range or listed twice is an error.
\<close>

fun flip1 :: "nat \<Rightarrow> tensor \<Rightarrow> tensor" where
  "flip1 d (Sc v) = Sc v"
| "flip1 0 (Dim ts) = Dim (rev ts)"
| "flip1 (Suc d) (Dim ts) = Dim (map (flip1 d) ts)"

definition flip :: "nat list \<Rightarrow> tensor \<Rightarrow> error + tensor" where
  "flip dims t =
     (if \<exists>d \<in> set dims. ndim t \<le> d then Inl IndexError
      else if \<not> distinct dims then Inl RuntimeError
      else Inr (fold flip1 dims t))"

text \<open>
  In-place addition \<^verbatim>\<open>a += b\<close> and division by a number \<^verbatim>\<open>a /= n\<close>.
\<close>

definition iadd :: "tensor \<Rightarrow> tensor \<Rightarrow> error + tensor" where
  "iadd a b = elementwise fadd a b"

definition idiv :: "tensor \<Rightarrow> nat \<Rightarrow> tensor" where
  "idiv a n = tmap (\<lambda>v. fdiv v (Fin (real n))) a"

text \<open>
  An operation between a tensor with a leading channel dimension and a tensor without it,
  which torch broadcasts over the channels: \<^verbatim>\<open>prediction * gaussian\<close> and
  \<^verbatim>\<open>predicted_logits /= n_predictions\<close>.
\<close>

definition channel_wise :: "(fval \<Rightarrow> fval \<Rightarrow> fval) \<Rightarrow> tensor \<Rightarrow> tensor \<Rightarrow> error + tensor" where
  "channel_wise f a g =
     (case a of
        Sc v \<Rightarrow> Inl RuntimeError
      | Dim cs \<Rightarrow> dim_of (all_ok (map (\<lambda>c. elementwise f c g) cs)))"

definition any_isinf :: "tensor \<Rightarrow> bool" where
  "any_isinf t = list_ex isinf (elements t)"

text \<open>
  The entries of an index tuple: \<^verbatim>\<open>slice(None)\<close>, an integer, and \<^verbatim>\<open>slice(a, b)\<close>, whose
  bounds Python clamps to the dimension.
\<close>

datatype index = Whole | At nat | Range nat nat

fun getitem :: "index list \<Rightarrow> tensor \<Rightarrow> error + tensor" where
  "getitem [] t = Inr t"
| "getitem (i # ix) (Sc v) = Inl IndexError"
| "getitem (Whole # ix) (Dim ts) = dim_of (all_ok (map (getitem ix) ts))"
| "getitem (Range a b # ix) (Dim ts) =
     dim_of (all_ok (map (getitem ix) (take (b - a) (drop a ts))))"
| "getitem (At d # ix) (Dim ts) =
     (if d < length ts then getitem ix (ts ! d) else Inl IndexError)"

text \<open>
  \<^verbatim>\<open>t[ix] += p\<close>: the addressed region of \<open>t\<close> takes the sum. The patch \<open>p\<close> has the
  shape of the region or is a single number, which is added to every element.
\<close>

fun iadd_at :: "index list \<Rightarrow> tensor \<Rightarrow> tensor \<Rightarrow> error + tensor" where
  "iadd_at [] t p =
     (case p of Sc v \<Rightarrow> Inr (tmap (\<lambda>x. fadd x v) t) | Dim ps \<Rightarrow> iadd t p)"
| "iadd_at (i # ix) (Sc v) p = Inl IndexError"
| "iadd_at (Whole # ix) (Dim ts) p =
     (case p of
        Sc v \<Rightarrow> dim_of (all_ok (map (\<lambda>t. iadd_at ix t p) ts))
      | Dim ps \<Rightarrow>
          (if length ps = length ts
           then dim_of (all_ok (map (\<lambda>(t, q). iadd_at ix t q) (zip ts ps)))
           else Inl RuntimeError))"
| "iadd_at (Range a b # ix) (Dim ts) p =
     (let region = take (b - a) (drop a ts) in
      case (case p of
              Sc v \<Rightarrow> all_ok (map (\<lambda>t. iadd_at ix t p) region)
            | Dim ps \<Rightarrow>
                (if length ps = length region
                 then all_ok (map (\<lambda>(t, q). iadd_at ix t q) (zip region ps))
                 else Inl RuntimeError)) of
        Inl e \<Rightarrow> Inl e
      | Inr region' \<Rightarrow> Inr (Dim (take a ts @ region' @ drop (a + length region) ts)))"
| "iadd_at (At d # ix) (Dim ts) p =
     (if d < length ts
      then (case iadd_at ix (ts ! d) p of Inl e \<Rightarrow> Inl e | Inr t' \<Rightarrow> Inr (Dim (ts[d := t'])))
      else Inl IndexError)"

text \<open>
  \<^verbatim>\<open>F.interpolate(x, scale_factor=k)\<close> in its default mode \<open>nearest\<close>, for a whole number
  \<open>k\<close> and for its inverse: the dimensions after batch and channel repeat every element
  \<open>k\<close> times, or keep every \<open>k\<close>-th element. The input has 3, 4 or 5 dimensions.
\<close>

fun upsample :: "nat \<Rightarrow> tensor \<Rightarrow> tensor" where
  "upsample k (Sc v) = Sc v"
| "upsample k (Dim ts) = Dim (concat (map (\<lambda>t. replicate k (upsample k t)) ts))"

definition every_kth :: "nat \<Rightarrow> 'a list \<Rightarrow> 'a list" where
  "every_kth k xs = map (\<lambda>i. xs ! (i * k)) [0..<length xs div k]"

lemma set_every_kth: "0 < k \<Longrightarrow> set (every_kth k xs) \<subseteq> set xs"
proof -
  assume k: "0 < k"
  have "i * k < length xs" if "i < length xs div k" for i
  proof -
    have "i * k < (length xs div k) * k" using that k by simp
    also have "\<dots> \<le> length xs" by simp
    finally show ?thesis .
  qed
  then show ?thesis by (auto simp: every_kth_def)
qed

function downsample :: "nat \<Rightarrow> tensor \<Rightarrow> tensor" where
  "downsample k (Sc v) = Sc v"
| "downsample k (Dim ts) = (if k = 0 then Dim [] else Dim (map (downsample k) (every_kth k ts)))"
  by pat_completeness auto
termination
proof (relation "measure (\<lambda>(k, t). size t)")
  show "wf (measure (\<lambda>(k, t). size t))" by simp
next
  fix k :: nat and ts :: "tensor list" and x
  assume "k \<noteq> 0" and "x \<in> set (every_kth k ts)"
  then have "x \<in> set ts" using set_every_kth [of k ts] by auto
  then show "((k, x), (k, Dim ts)) \<in> measure (\<lambda>(k, t). size t)"
    by (simp add: size_tensor_member)
qed

definition on_spatial :: "(tensor \<Rightarrow> tensor) \<Rightarrow> tensor \<Rightarrow> error + tensor" where
  "on_spatial f x =
     (if ndim x \<in> {3, 4, 5}
      then Inr (case x of
                  Sc v \<Rightarrow> x
                | Dim bs \<Rightarrow> Dim (map (\<lambda>b. case b of Sc v \<Rightarrow> b | Dim cs \<Rightarrow> Dim (map f cs)) bs))
      else Inl NotImplementedError)"

definition interpolate_up :: "nat \<Rightarrow> tensor \<Rightarrow> error + tensor" where
  "interpolate_up k x = on_spatial (upsample k) x"

definition interpolate_down :: "nat \<Rightarrow> tensor \<Rightarrow> error + tensor" where
  "interpolate_down k x = on_spatial (downsample k) x"

definition bind_err :: "error + 'a \<Rightarrow> ('a \<Rightarrow> error + 'b) \<Rightarrow> error + 'b" where
  "bind_err r f = (case r of Inl e \<Rightarrow> Inl e | Inr x \<Rightarrow> f x)"

section \<open>The network and the predictor\<close>

text \<open>
  The parts of the network that the predictor calls, as functions of their inputs:
  \<open>forward\<close> is \<^verbatim>\<open>self.network(x, target_code, with_latent=True)\<close> and gives the
  prediction and the latent space, \<open>image_encoder\<close> gives the quantised latent, \<open>tsf\<close>
  gives the fused latent and its fine-tuned version, \<open>infer_contribution\<close> is
  \<^verbatim>\<open>self.network.tsf.infer_contribution(code).squeeze().detach().numpy().tolist()\<close>.
\<close>

record network =
  forward :: "tensor \<Rightarrow> code \<Rightarrow> tensor \<times> tensor"
  segmentor :: "tensor \<Rightarrow> tensor"
  image_encoder :: "tensor \<Rightarrow> tensor"
  tsf :: "tensor \<Rightarrow> code \<Rightarrow> tensor \<times> tensor"
  hyper_decoder :: "tensor \<Rightarrow> code \<Rightarrow> tensor"
  infer_contribution :: "code \<Rightarrow> real list"
  tsf_num_channel :: nat
  image_encoder_latent_space_dim :: nat

datatype device = Cuda | Cpu | Mps

text \<open>
  The attributes of an initialised \<open>nnSeq2SeqPredictor\<close>. A set of weights in \<open>list_of_parameters\<close> is
  modelled by the network that loading it gives. \<open>patch_size\<close> and \<open>previous_stage_name\<close>
  belong to the configuration manager and \<open>num_segmentation_heads\<close> to the label manager. The attribute
  \<open>one2one_translate_psnr\<close> exists only once \<open>predict_from_files\<close> has created it.
  Loading weights leaves the constants of the architecture (\<open>tsf_num_channel\<close> and the
  latent dimension of the encoder) as they are, so they are read from \<open>network\<close>.
\<close>

record predictor =
  tile_step_size :: real
  use_gaussian :: bool
  use_mirroring :: bool
  perform_everything_on_device :: bool
  device :: device
  allowed_mirroring_axes :: "nat list option"
  list_of_parameters :: "network list"
  network :: network
  patch_size :: "nat list"
  previous_stage_name :: "string option"
  num_segmentation_heads :: nat
  one2one_translate_psnr :: "fval list list list option"

section \<open>Mirror-augmented prediction of one tile (\<open>_internal_maybe_mirror_and_predict\<close>)\<close>

text \<open>
  \<^verbatim>\<open>itertools.combinations(xs, r)\<close>: the sublists of length \<open>r\<close>, in the order of their
  positions.
\<close>

fun combinations :: "'a list \<Rightarrow> nat \<Rightarrow> 'a list list" where
  "combinations xs 0 = [[]]"
| "combinations [] (Suc r) = []"
| "combinations (x # xs) (Suc r) = map ((#) x) (combinations xs r) @ combinations xs (Suc r)"

text \<open>
  \<^verbatim>\<open>[c for i in range(len(mirror_axes))
     for c in itertools.combinations([m + 2 for m in mirror_axes], i + 1)]\<close>
\<close>

definition axes_combinations :: "nat list \<Rightarrow> nat list list" where
  "axes_combinations mirror_axes =
     concat (map (\<lambda>i. combinations (map (\<lambda>m. m + 2) mirror_axes) (i + 1))
               [0..<length mirror_axes])"

text \<open>
  The tensor as the list of its entries along the first dimension.
\<close>

fun rows :: "tensor \<Rightarrow> tensor list" where
  "rows (Sc v) = [Sc v]"
| "rows (Dim ts) = ts"

text \<open>
  \<^verbatim>\<open>torch.cat(ts, dim=1)\<close> for tensors that agree in their other dimensions, as the
  slices of one tensor do: entry \<open>b\<close> of the result joins the entries \<open>b\<close> of all tensors.
  An empty list and tensors without two dimensions are errors.
\<close>

definition cat1 :: "tensor list \<Rightarrow> error + tensor" where
  "cat1 ts =
     (case ts of
        [] \<Rightarrow> Inl RuntimeError
      | t # _ \<Rightarrow>
          (if \<forall>u \<in> set ts. 2 \<le> ndim u \<and> length (rows u) = length (rows t)
           then Inr (Dim (map (\<lambda>b. Dim (concat (map (\<lambda>u. rows (rows u ! b)) ts)))
                           [0..<length (rows t)]))
           else Inl RuntimeError))"

text \<open>
  \<^verbatim>\<open>t.view(-1, 1, *x.shape[2:])\<close> of a tensor of shape \<open>(B, n, ...)\<close>: every channel of
  every batch entry becomes an entry with one channel.
\<close>

definition view_single_channel :: "tensor \<Rightarrow> tensor" where
  "view_single_channel t = Dim (concat (map (\<lambda>b. map (\<lambda>c. Dim [c]) (rows b)) (rows t)))"

text \<open>
  \<^verbatim>\<open>t.reshape(batch, -1, *t.shape[2:])\<close> of a tensor of shape \<open>(M, C, ...)\<close>: \<open>M\<close> must be a
  multiple of the batch size, and every batch entry joins the channels of \<open>M / batch\<close>
  consecutive entries.
\<close>

definition reshape_batch :: "nat \<Rightarrow> tensor \<Rightarrow> error + tensor" where
  "reshape_batch batch t =
     (let m = length (rows t) in
      if batch = 0 \<or> m mod batch \<noteq> 0 then Inl RuntimeError
      else Inr (Dim (map (\<lambda>b. Dim (concat (map rows (take (m div batch) (drop (b * (m div batch)) (rows t))))))
                      [0..<batch])))"

text \<open>
  Lines 677 to 681: one zero volume for every sequence, replaced by the channel of the tile
  for every available sequence, joined along the channels and viewed as single-channel
  entries.
  \<^verbatim>\<open>tsf_data = [torch.zeros_like(x[:,0:1]) for _ in range(properties['num_channel'])]
  for i, seq_i in enumerate(properties['available_channel']):
      tsf_data[seq_i] = x[:, i:i+1]\<close>
\<close>

fun place_channels :: "tensor \<Rightarrow> tensor list \<Rightarrow> nat \<Rightarrow> nat list \<Rightarrow> error + tensor list" where
  "place_channels x tsf_data i [] = Inr tsf_data"
| "place_channels x tsf_data i (seq_i # rest) =
     bind_err (getitem [Whole, Range i (i + 1)] x) (\<lambda>channel.
       if seq_i < length tsf_data
       then place_channels x (tsf_data[seq_i := channel]) (i + 1) rest
       else Inl IndexError)"

definition build_tsf_data :: "tensor \<Rightarrow> properties \<Rightarrow> error + tensor" where
  "build_tsf_data x props =
     bind_err (getitem [Whole, Range 0 1] x) (\<lambda>first.
     bind_err (place_channels x (replicate (num_channel props) (tmap (\<lambda>_. Fin 0) first)) 0
                 (available_channel props)) (\<lambda>tsf_data.
     bind_err (cat1 tsf_data) (\<lambda>joined. Inr (view_single_channel joined))))"

text \<open>
  The forward logic on an input that may be flipped. Without \<open>properties\<close> the network
  runs on the tile and the segmentor on its latent space (lines 674, 675 and 711, 712).
  With \<open>properties\<close> the image encoder runs on the single-channel entries, the fusion
  module on the latent of every batch entry, once with the target code and once with the
  segmentation code, and the decoder and the segmentor on the fused latents
  (lines 682 to 698 and 714 to 726).
\<close>

definition network_pass :: "network \<Rightarrow> code \<Rightarrow> tensor \<Rightarrow> tensor \<times> tensor \<times> tensor" where
  "network_pass net target_code x =
     (case forward net x target_code of
        (prediction, latent_space) \<Rightarrow> (prediction, segmentor net latent_space, latent_space))"

definition fusion_pass ::
  "network \<Rightarrow> nat \<Rightarrow> code \<Rightarrow> code \<Rightarrow> code \<Rightarrow> bool \<Rightarrow> tensor \<Rightarrow> error + tensor \<times> tensor \<times> tensor" where
  "fusion_pass net batch tgt_code seg_code target_code with_attn tsf_data =
     bind_err (reshape_batch batch (image_encoder net tsf_data)) (\<lambda>latent_tsf.
       case tsf net latent_tsf tgt_code of (latent_tsf_tgt, latent_tsf_tgt_finetune) \<Rightarrow>
       case tsf net latent_tsf seg_code of (latent_tsf_seg, latent_tsf_seg_finetune) \<Rightarrow>
         if with_attn
         then Inr (hyper_decoder net latent_tsf_tgt_finetune target_code,
                   segmentor net latent_tsf_seg_finetune, latent_tsf_tgt_finetune)
         else Inr (hyper_decoder net latent_tsf_tgt target_code,
                   segmentor net latent_tsf_seg, latent_tsf_tgt))"

text \<open>
  The input that the mirror loop flips and the forward logic that runs on it: the tile
  itself, or the single-channel entries of the fusion path with the two fused codes.
\<close>

definition forward_logic ::
  "predictor \<Rightarrow> tensor \<Rightarrow> code \<Rightarrow> properties option \<Rightarrow> bool \<Rightarrow>
   error + tensor \<times> (tensor \<Rightarrow> error + tensor \<times> tensor \<times> tensor)" where
  "forward_logic p x target_code props with_attn =
     (case props of
        None \<Rightarrow> Inr (x, \<lambda>x'. Inr (network_pass (network p) target_code x'))
      | Some pr \<Rightarrow>
          bind_err (build_tsf_data x pr) (\<lambda>tsf_data.
          bind_err (tsf_tgt_code pr target_code) (\<lambda>tgt_code.
          bind_err (tsf_seg_code pr target_code) (\<lambda>seg_code.
            Inr (tsf_data,
                 fusion_pass (network p) (length (rows x)) tgt_code seg_code target_code with_attn)))))"

text \<open>
  One round of the loop over \<open>axes_combinations\<close> (lines 709 to 729): flip the input, run
  the forward logic, and add each flipped-back output to its accumulator.
\<close>

definition mirror_step ::
  "(tensor \<Rightarrow> error + tensor \<times> tensor \<times> tensor) \<Rightarrow> tensor \<Rightarrow> tensor \<times> tensor \<times> tensor \<Rightarrow>
   nat list \<Rightarrow> error + tensor \<times> tensor \<times> tensor" where
  "mirror_step pass input acc axes =
     (case acc of (prediction, prediction_mask, latent_space) \<Rightarrow>
        bind_err (flip axes input) (\<lambda>flipped.
        bind_err (pass flipped) (\<lambda>(pred, pred_mask, latent).
        bind_err (flip axes pred) (\<lambda>pred_back.
        bind_err (iadd prediction pred_back) (\<lambda>prediction'.
        bind_err (flip axes pred_mask) (\<lambda>mask_back.
        bind_err (iadd prediction_mask mask_back) (\<lambda>prediction_mask'.
        bind_err (flip axes latent) (\<lambda>latent_back.
        bind_err (iadd latent_space latent_back) (\<lambda>latent_space'.
          Inr (prediction', prediction_mask', latent_space'))))))))))"

fun mirror_loop ::
  "(tensor \<Rightarrow> error + tensor \<times> tensor \<times> tensor) \<Rightarrow> tensor \<Rightarrow> tensor \<times> tensor \<times> tensor \<Rightarrow>
   nat list list \<Rightarrow> error + tensor \<times> tensor \<times> tensor" where
  "mirror_loop pass input acc [] = Inr acc"
| "mirror_loop pass input acc (axes # rest) =
     bind_err (mirror_step pass input acc axes) (\<lambda>acc'. mirror_loop pass input acc' rest)"

text \<open>
  \<^verbatim>\<open>max(mirror_axes)\<close> raises \<open>ValueError\<close> on an empty tuple.
\<close>

definition max_of :: "nat list \<Rightarrow> error + nat" where
  "max_of xs = (case xs of [] \<Rightarrow> Inl ValueError | x # rest \<Rightarrow> Inr (fold max rest x))"

definition internal_maybe_mirror_and_predict ::
  "predictor \<Rightarrow> tensor \<Rightarrow> code \<Rightarrow> properties option \<Rightarrow> bool \<Rightarrow>
   error + tensor \<times> tensor \<times> tensor" where
  "internal_maybe_mirror_and_predict p x target_code props with_attn =
     (let mirror_axes = (if use_mirroring p then allowed_mirroring_axes p else None) in
      bind_err (forward_logic p x target_code props with_attn) (\<lambda>(input, pass).
      bind_err (pass input) (\<lambda>first.
        case mirror_axes of
          None \<Rightarrow> Inr first
        | Some axes \<Rightarrow>
            bind_err (max_of axes) (\<lambda>m.
              if int m \<le> int (ndim x) - 3 then
                (let combos = axes_combinations axes in
                 bind_err (mirror_loop pass input first combos)
                   (\<lambda>(prediction, prediction_mask, latent_space).
                      Inr (idiv prediction (length combos + 1),
                           idiv prediction_mask (length combos + 1),
                           idiv latent_space (length combos + 1))))
              else Inl AssertionError))))"

text \<open>
  A flipped forward pass: the input flipped along the axes, the forward logic on it, and
  its three outputs flipped back.
\<close>

definition flipped_prediction ::
  "(tensor \<Rightarrow> error + tensor \<times> tensor \<times> tensor) \<Rightarrow> tensor \<Rightarrow> nat list \<Rightarrow>
   error + tensor \<times> tensor \<times> tensor" where
  "flipped_prediction pass input axes =
     bind_err (flip axes input) (\<lambda>flipped.
     bind_err (pass flipped) (\<lambda>(pred, pred_mask, latent).
     bind_err (flip axes pred) (\<lambda>pred_back.
     bind_err (flip axes pred_mask) (\<lambda>mask_back.
     bind_err (flip axes latent) (\<lambda>latent_back.
       Inr (pred_back, mask_back, latent_back))))))"

section \<open>Sliding-window prediction\<close>

text \<open>
  What the predictor calls in other modules and libraries. \<open>pad_nd_image\<close> gives the padded
  image and the index tuple that reverts the padding; \<open>compute_steps_for_sliding_window\<close>
  gives the start positions along every axis; \<open>compute_gaussian\<close> gives the importance map
  of a patch size (with the fixed \<open>sigma_scale = 1/8\<close> and \<open>value_scaling_factor = 10\<close>);
  \<open>out_of_memory\<close> tells whether moving the image to a device and preallocating the
  result arrays there exhausts its memory, which torch reports by an exception that is a
  \<open>RuntimeError\<close>. \<open>linearMatch\<close>, \<open>torch_PSNR\<close> and \<open>argmax\<close> (over dimension 0,
  keeping it) serve the loop over the cases.
\<close>

record externals =
  pad_nd_image :: "tensor \<Rightarrow> nat list \<Rightarrow> tensor \<times> index list"
  compute_steps_for_sliding_window :: "nat list \<Rightarrow> nat list \<Rightarrow> real \<Rightarrow> nat list list"
  compute_gaussian :: "nat list \<Rightarrow> tensor"
  out_of_memory :: "device \<Rightarrow> bool"
  linearMatch :: "tensor \<Rightarrow> tensor \<Rightarrow> tensor"
  torch_PSNR :: "tensor \<Rightarrow> tensor \<Rightarrow> fval"
  argmax :: "tensor \<Rightarrow> tensor"

definition nth_err :: "'a list \<Rightarrow> nat \<Rightarrow> error + 'a" where
  "nth_err xs i = (if i < length xs then Inr (xs ! i) else Inl IndexError)"

text \<open>
  \<open>_internal_get_sliding_window_slicers\<close> (lines 637 to 669). \<open>steps[i]\<close> is read when
  the loop over it starts, so a missing entry raises only if every outer loop has a round.
  \<^verbatim>\<open>zip((sx, sy, sz), patch_size)\<close> stops at the shorter of the two.
\<close>

definition tile_ranges :: "nat list \<Rightarrow> nat list \<Rightarrow> index list" where
  "tile_ranges starts tile_size = map (\<lambda>(si, ti). Range si (si + ti)) (zip starts tile_size)"

definition internal_get_sliding_window_slicers ::
  "externals \<Rightarrow> predictor \<Rightarrow> nat list \<Rightarrow> error + index list list" where
  "internal_get_sliding_window_slicers ext p image_size =
     (if length (patch_size p) < length image_size then
        (if length (patch_size p) = length image_size - 1 then
           (let steps = compute_steps_for_sliding_window ext (tl image_size) (patch_size p)
                          (tile_step_size p)
            in if hd image_size = 0 then Inr []
               else bind_err (nth_err steps 0) (\<lambda>steps0.
                    if steps0 = [] then Inr []
                    else bind_err (nth_err steps 1) (\<lambda>steps1.
                      Inr (concat (map (\<lambda>d.
                             concat (map (\<lambda>sx.
                               map (\<lambda>sy. [Whole, At d] @ tile_ranges [sx, sy] (patch_size p))
                                 steps1) steps0)) [0..<hd image_size])))))
         else Inl AssertionError)
      else
        (let steps = compute_steps_for_sliding_window ext image_size (patch_size p)
                       (tile_step_size p)
         in bind_err (nth_err steps 0) (\<lambda>steps0.
            if steps0 = [] then Inr []
            else bind_err (nth_err steps 1) (\<lambda>steps1.
              if steps1 = [] then Inr []
              else bind_err (nth_err steps 2) (\<lambda>steps2.
                Inr (concat (map (\<lambda>sx.
                       concat (map (\<lambda>sy.
                         map (\<lambda>sz. Whole # tile_ranges [sx, sy, sz] (patch_size p))
                           steps2) steps1)) steps0)))))))"

text \<open>
  The four arrays that the loop over the slicers fills: the three accumulators and the
  normalisation volume.
\<close>

record accumulators =
  predicted_logits :: tensor
  predicted_mask_logits :: tensor
  predicted_latent_space :: tensor
  n_predictions :: tensor

text \<open>
  \<^verbatim>\<open>prediction * gaussian if self.use_gaussian else prediction\<close>
\<close>

definition weighted :: "tensor option \<Rightarrow> tensor \<Rightarrow> error + tensor" where
  "weighted gaussian t =
     (case gaussian of None \<Rightarrow> Inr t | Some g \<Rightarrow> channel_wise fmul t g)"

text \<open>
  One round of the loop over the slicers (lines 774 to 785).
\<close>

definition sliding_window_step ::
  "predictor \<Rightarrow> tensor \<Rightarrow> code \<Rightarrow> properties option \<Rightarrow> bool \<Rightarrow> tensor option \<Rightarrow>
   accumulators \<Rightarrow> index list \<Rightarrow> error + accumulators" where
  "sliding_window_step p data target_code props with_attn gaussian acc sl =
     bind_err (getitem sl data) (\<lambda>tile.
     bind_err (internal_maybe_mirror_and_predict p (Dim [tile]) target_code props with_attn)
       (\<lambda>(prediction, prediction_mask, latent_space).
     bind_err (getitem [At 0] prediction) (\<lambda>prediction0.
     bind_err (getitem [At 0] prediction_mask) (\<lambda>prediction_mask0.
     bind_err (interpolate_up 4 latent_space) (\<lambda>upsampled.
     bind_err (getitem [At 0] upsampled) (\<lambda>latent_space0.
     bind_err (weighted gaussian prediction0) (\<lambda>w1.
     bind_err (iadd_at sl (predicted_logits acc) w1) (\<lambda>logits'.
     bind_err (weighted gaussian prediction_mask0) (\<lambda>w2.
     bind_err (iadd_at sl (predicted_mask_logits acc) w2) (\<lambda>mask_logits'.
     bind_err (weighted gaussian latent_space0) (\<lambda>w3.
     bind_err (iadd_at sl (predicted_latent_space acc) w3) (\<lambda>latent'.
     bind_err (iadd_at (tl sl) (n_predictions acc)
                 (case gaussian of None \<Rightarrow> Sc (Fin 1) | Some g \<Rightarrow> g)) (\<lambda>n'.
       Inr \<lparr>predicted_logits = logits', predicted_mask_logits = mask_logits',
            predicted_latent_space = latent', n_predictions = n'\<rparr>)))))))))))))"

fun sliding_window_loop ::
  "predictor \<Rightarrow> tensor \<Rightarrow> code \<Rightarrow> properties option \<Rightarrow> bool \<Rightarrow> tensor option \<Rightarrow>
   accumulators \<Rightarrow> index list list \<Rightarrow> error + accumulators" where
  "sliding_window_loop p data target_code props with_attn gaussian acc [] = Inr acc"
| "sliding_window_loop p data target_code props with_attn gaussian acc (sl # slicers) =
     bind_err (sliding_window_step p data target_code props with_attn gaussian acc sl)
       (\<lambda>acc'. sliding_window_loop p data target_code props with_attn gaussian acc' slicers)"

text \<open>
  Lines 746 to 785: the arrays are preallocated on the result device and filled by the loop.
\<close>

definition accumulate ::
  "externals \<Rightarrow> predictor \<Rightarrow> tensor \<Rightarrow> index list list \<Rightarrow> code \<Rightarrow> bool \<Rightarrow>
   properties option \<Rightarrow> bool \<Rightarrow> error + accumulators" where
  "accumulate ext p data slicers target_code do_on_device props with_attn =
     (let results_device = (if do_on_device then device p else Cpu) in
      if out_of_memory ext results_device then Inl RuntimeError
      else
        sliding_window_loop p data target_code props with_attn
          (if use_gaussian p then Some (compute_gaussian ext (patch_size p)) else None)
          \<lparr>predicted_logits = zeros (1 # tl (shape data)),
           predicted_mask_logits = zeros (num_segmentation_heads p # tl (shape data)),
           predicted_latent_space =
             zeros (image_encoder_latent_space_dim (network p) # tl (shape data)),
           n_predictions = zeros (tl (shape data))\<rparr>
          slicers)"

text \<open>
  Lines 788 to 790: every accumulator is divided by the normalisation volume.
\<close>

definition normalise :: "accumulators \<Rightarrow> error + tensor \<times> tensor \<times> tensor" where
  "normalise acc =
     bind_err (channel_wise fdiv (predicted_logits acc) (n_predictions acc)) (\<lambda>logits.
     bind_err (channel_wise fdiv (predicted_mask_logits acc) (n_predictions acc)) (\<lambda>mask_logits.
     bind_err (channel_wise fdiv (predicted_latent_space acc) (n_predictions acc)) (\<lambda>latent.
       Inr (logits, mask_logits, latent))))"

text \<open>
  \<open>_internal_predict_sliding_window_return_logits\<close>. The handler of the \<open>try\<close> block
  frees the arrays and raises the exception again, so an exception of the block is the
  exception of the function.
\<close>

definition internal_predict_sliding_window_return_logits ::
  "externals \<Rightarrow> predictor \<Rightarrow> tensor \<Rightarrow> index list list \<Rightarrow> code \<Rightarrow> bool \<Rightarrow>
   properties option \<Rightarrow> bool \<Rightarrow> error + tensor \<times> tensor \<times> tensor" where
  "internal_predict_sliding_window_return_logits ext p data slicers target_code do_on_device
     props with_attn =
     bind_err (accumulate ext p data slicers target_code do_on_device props with_attn) (\<lambda>acc.
     bind_err (normalise acc) (\<lambda>(logits, mask_logits, latent).
       if any_isinf logits then Inl RuntimeError
       else Inr (logits, mask_logits, latent)))"

text \<open>
  \<^verbatim>\<open>self.device != 'cpu'\<close> compares a \<open>torch.device\<close> with a string. The comparison of
  torch is defined between devices only, so Python falls back to identity and the two are
  different, whatever the device.
\<close>

definition device_differs_from :: "device \<Rightarrow> string \<Rightarrow> bool" where
  "device_differs_from d s = True"

text \<open>
  \<open>predict_sliding_window_return_logits\<close> (lines 803 to 851). Next to its result the
  model gives the trace of the calls of the internal execution: the \<open>do_on_device\<close>
  argument of every call, in order.
\<close>

definition revert_padding ::
  "index list \<Rightarrow> tensor \<times> tensor \<times> tensor \<Rightarrow> error + tensor \<times> tensor \<times> tensor" where
  "revert_padding slicer_revert_padding r =
     (case r of (logits, mask_logits, latent) \<Rightarrow>
        bind_err (getitem (Whole # tl slicer_revert_padding) logits) (\<lambda>logits'.
        bind_err (getitem (Whole # tl slicer_revert_padding) mask_logits) (\<lambda>mask_logits'.
        bind_err (getitem (Whole # tl slicer_revert_padding) latent) (\<lambda>latent'.
          Inr (logits', mask_logits', latent')))))"

definition predict_sliding_window_return_logits ::
  "externals \<Rightarrow> predictor \<Rightarrow> tensor \<Rightarrow> code \<Rightarrow> properties option \<Rightarrow> bool \<Rightarrow>
   bool list \<times> (error + tensor \<times> tensor \<times> tensor)" where
  "predict_sliding_window_return_logits ext p input_image target_code props with_attn =
     (if ndim input_image \<noteq> 4 then ([], Inl AssertionError)
      else
        case pad_nd_image ext input_image (patch_size p) of (data, slicer_revert_padding) \<Rightarrow>
        case internal_get_sliding_window_slicers ext p (tl (shape data)) of
          Inl e \<Rightarrow> ([], Inl e)
        | Inr slicers \<Rightarrow>
            (let attempt = (\<lambda>do_on_device.
                   internal_predict_sliding_window_return_logits ext p data slicers target_code
                     do_on_device props with_attn)
             in if perform_everything_on_device p \<and> device_differs_from (device p) ''cpu'' then
                  (case attempt (perform_everything_on_device p) of
                     Inr r \<Rightarrow> ([perform_everything_on_device p], revert_padding slicer_revert_padding r)
                   | Inl e \<Rightarrow>
                       (if e = RuntimeError
                        then ([perform_everything_on_device p, False],
                              bind_err (attempt False) (revert_padding slicer_revert_padding))
                        else ([perform_everything_on_device p], Inl e)))
                else
                  ([perform_everything_on_device p],
                   bind_err (attempt (perform_everything_on_device p))
                     (revert_padding slicer_revert_padding))))"

text \<open>
  \<open>predict_logits_from_preprocessed_data\<close> (lines 588 to 635): one sliding-window
  prediction for every set of weights, summed and divided by their number. Without any
  set of weights the final \<^verbatim>\<open>prediction.to('cpu')\<close> is an attribute of \<open>None\<close>.
\<close>

fun ensemble_loop ::
  "externals \<Rightarrow> predictor \<Rightarrow> tensor \<Rightarrow> code \<Rightarrow> properties option \<Rightarrow> bool \<Rightarrow>
   (tensor \<times> tensor \<times> tensor) option \<Rightarrow> network list \<Rightarrow>
   error + (tensor \<times> tensor \<times> tensor) option" where
  "ensemble_loop ext p data target_code props with_attn acc [] = Inr acc"
| "ensemble_loop ext p data target_code props with_attn acc (params # rest) =
     bind_err (snd (predict_sliding_window_return_logits ext (p\<lparr>network := params\<rparr>) data
                      target_code props with_attn)) (\<lambda>(pred, pred_mask, pred_latent).
       case acc of
         None \<Rightarrow>
           ensemble_loop ext p data target_code props with_attn
             (Some (pred, pred_mask, pred_latent)) rest
       | Some (prediction, prediction_mask, prediction_latent) \<Rightarrow>
           bind_err (iadd prediction pred) (\<lambda>prediction'.
           bind_err (iadd prediction_mask pred_mask) (\<lambda>prediction_mask'.
           bind_err (iadd prediction_latent pred_latent) (\<lambda>prediction_latent'.
             ensemble_loop ext p data target_code props with_attn
               (Some (prediction', prediction_mask', prediction_latent')) rest))))"

definition predict_logits_from_preprocessed_data ::
  "externals \<Rightarrow> predictor \<Rightarrow> tensor \<Rightarrow> code \<Rightarrow> properties option \<Rightarrow> bool \<Rightarrow>
   error + tensor \<times> tensor \<times> tensor" where
  "predict_logits_from_preprocessed_data ext p data target_code props with_attn =
     bind_err (ensemble_loop ext p data target_code props with_attn None (list_of_parameters p))
       (\<lambda>acc. case acc of
          None \<Rightarrow> Inl AttributeError
        | Some (prediction, prediction_mask, prediction_latent) \<Rightarrow>
            (if 1 < length (list_of_parameters p)
             then Inr (idiv prediction (length (list_of_parameters p)),
                       idiv prediction_mask (length (list_of_parameters p)),
                       idiv prediction_latent (length (list_of_parameters p)))
             else Inr (prediction, prediction_mask, prediction_latent)))"

section \<open>Synthesis-based sequence contribution (lines 516 to 540)\<close>

text \<open>
  \<open>np.nanmean\<close> and \<open>np.nanstd\<close> leave the NaN entries out; without any other entry the
  result is NaN. The standard deviation is the one of the population.
\<close>

fun fsqrt :: "fval \<Rightarrow> fval" where
  "fsqrt (Fin a) = (if a < 0 then NaN else Fin (sqrt a))"
| "fsqrt PInf = PInf"
| "fsqrt NInf = NaN"
| "fsqrt NaN = NaN"

definition fsum :: "fval list \<Rightarrow> fval" where
  "fsum xs = foldl fadd (Fin 0) xs"

definition nanmean :: "fval list \<Rightarrow> fval" where
  "nanmean xs =
     (let ys = filter (\<lambda>x. x \<noteq> NaN) xs
      in if ys = [] then NaN else fdiv (fsum ys) (Fin (real (length ys))))"

definition nanstd :: "fval list \<Rightarrow> fval" where
  "nanstd xs =
     (let ys = filter (\<lambda>x. x \<noteq> NaN) xs;
          avg = nanmean xs
      in if ys = [] then NaN
         else fsqrt (fdiv (fsum (map (\<lambda>x. fmul (fsub x avg) (fsub x avg)) ys))
                       (Fin (real (length ys)))))"

text \<open>
  \<^verbatim>\<open>for p1 in self.one2one_translate_psnr:
      for p2 in p1:
          all_psnr += p2\<close>
\<close>

definition all_psnr :: "fval list list list \<Rightarrow> fval list" where
  "all_psnr table = concat (concat table)"

text \<open>
  \<^verbatim>\<open>(np.nanmean(table[i][j]) - np.nanmean(all_psnr)) / (np.nanstd(all_psnr) + eps)\<close> with
  \<open>eps = 1e-9\<close>
\<close>

definition score :: "fval list \<Rightarrow> fval list \<Rightarrow> fval" where
  "score cell everything =
     fdiv (fsub (nanmean cell) (nanmean everything))
          (fadd (nanstd everything) (Fin (1 / 10 ^ 9)))"

text \<open>
  The two loops that fill \<open>A\<close> (lines 525 to 529): a cell without observations keeps its
  zero, and \<open>table[i][j]\<close> out of range raises \<open>IndexError\<close>.
\<close>

fun fill_row ::
  "fval list list list \<Rightarrow> nat \<Rightarrow> fval list list \<Rightarrow> nat list \<Rightarrow> error + fval list list" where
  "fill_row table i A [] = Inr A"
| "fill_row table i A (j # js) =
     bind_err (nth_err table i) (\<lambda>row.
     bind_err (nth_err row j) (\<lambda>cell.
       if length cell = 0 then fill_row table i A js
       else fill_row table i (A[i := (A ! i)[j := score cell (all_psnr table)]]) js))"

fun fill_rows ::
  "fval list list list \<Rightarrow> nat \<Rightarrow> fval list list \<Rightarrow> nat list \<Rightarrow> error + fval list list" where
  "fill_rows table n A [] = Inr A"
| "fill_rows table n A (i # is) =
     bind_err (fill_row table i A [0..<n]) (\<lambda>A'. fill_rows table n A' is)"

definition score_matrix :: "nat \<Rightarrow> fval list list list \<Rightarrow> error + fval list list" where
  "score_matrix n table = fill_rows table n (replicate n (replicate n (Fin 0))) [0..<n]"

text \<open>
  Lines 530 to 538: for every channel the two sums over \<open>A\<close>, divided by \<open>N\<close>.
  \<^verbatim>\<open>for j in range(N):
      metric_ct += A[i][j]
      metric_cd -= A[j][i]\<close>
\<close>

definition metric_sums :: "fval list list \<Rightarrow> nat \<Rightarrow> nat \<Rightarrow> fval \<times> fval" where
  "metric_sums A n i =
     foldl (\<lambda>(metric_ct, metric_cd) j. (fadd metric_ct (A ! i ! j), fsub metric_cd (A ! j ! i)))
       (Fin 0, Fin 0) [0..<n]"

definition sbsc_rows :: "fval list list \<Rightarrow> nat \<Rightarrow> (nat \<times> fval \<times> fval) list" where
  "sbsc_rows A n =
     map (\<lambda>i. case metric_sums A n i of
                 (metric_ct, metric_cd) \<Rightarrow>
                   (i, fdiv metric_ct (Fin (real n)), fdiv metric_cd (Fin (real n))))
       [0..<n]"

text \<open>
  The rows of \<open>synthesis-based_sequence_contribution.csv\<close>. Without the attribute
  \<open>one2one_translate_psnr\<close> the first loop raises \<open>AttributeError\<close>.
\<close>

definition sequence_contribution ::
  "predictor \<Rightarrow> fval list list list option \<Rightarrow> error + (nat \<times> fval \<times> fval) list" where
  "sequence_contribution p table =
     (let n = tsf_num_channel (network p) in
      case table of
        None \<Rightarrow> Inl AttributeError
      | Some t \<Rightarrow> bind_err (score_matrix n t) (\<lambda>A. Inr (sbsc_rows A n)))"

text \<open>
  The score matrix in the words of the specification, over real observations: the mean of
  a list, the standard deviation of a list (of the population), and for a cell with at
  least one observation the mean of the pair minus the global mean, divided by the global
  standard deviation plus \<open>1e-9\<close>; a cell without observations is zero.
\<close>

definition mean :: "real list \<Rightarrow> real" where
  "mean xs = sum_list xs / real (length xs)"

definition std :: "real list \<Rightarrow> real" where
  "std xs = sqrt (mean (map (\<lambda>x. (x - mean xs)\<^sup>2) xs))"

definition spec_score :: "real list list list \<Rightarrow> nat \<Rightarrow> nat \<Rightarrow> real" where
  "spec_score obs i j =
     (if obs ! i ! j = [] then 0
      else (mean (obs ! i ! j) - mean (concat (concat obs))) / (std (concat (concat obs)) + 1 / 10 ^ 9))"

section \<open>Prediction of the cases of a data iterator\<close>

text \<open>
  An element of the data iterator: the dictionary with the keys \<open>data\<close>, \<open>ofile\<close> and
  \<open>data_properties\<close>. Data that the iterator hands over as the name of a file is taken
  as loaded. A null \<open>ofile\<close> is \<open>None\<close>.
\<close>

record preprocessed =
  pre_data :: tensor
  pre_ofile :: "string option"
  pre_properties :: properties

text \<open>
  The work sent to the export pool: \<open>export_prediction_from_logits\<close> with the array, the
  truncated output name, \<open>save_probabilities\<close> and its last argument (given as \<open>True\<close> for
  the latent space only), and \<open>convert_predicted_logits_to_segmentation_with_correct_shape\<close>
  with the array and \<open>save_probabilities\<close>. The list that \<open>predict_from_data_iterator\<close>
  returns holds the results of these jobs, in the order of their submission; the pool is
  taken as ready whenever the loop asks.
\<close>

datatype job =
    ExportPrediction tensor string bool bool
  | ConvertPrediction tensor bool

text \<open>
  What the loop over the cases changes: the list \<open>r\<close> of the submitted jobs, the
  attribute \<open>one2one_translate_psnr\<close> of the predictor (\<open>None\<close> while it does not exist),
  and the directories made by \<open>os.makedirs\<close>.
\<close>

record run_state =
  submitted :: "job list"
  psnr_table :: "fval list list list option"
  made_dirs :: "string list"

text \<open>
  \<^verbatim>\<open>'{}'.format(n)\<close> for a number that is not negative.
\<close>

function decimal :: "nat \<Rightarrow> string" where
  "decimal n =
     (if n < 10 then [''0123456789'' ! n]
      else decimal (n div 10) @ [''0123456789'' ! (n mod 10)])"
  by pat_completeness auto
termination
  by (relation "measure (\<lambda>n. n)") auto

declare decimal.simps [simp del]

text \<open>
  \<^verbatim>\<open>os.path.join(ofile, part, ...)\<close> raises \<open>TypeError\<close> when \<open>ofile\<close> is \<open>None\<close>, and
  \<^verbatim>\<open>os.path.dirname\<close> gives what precedes the last slash, without trailing slashes unless
  it holds nothing else.
\<close>

definition join_under :: "string option \<Rightarrow> string list \<Rightarrow> error + string" where
  "join_under ofile parts =
     (case ofile of None \<Rightarrow> Inl TypeError | Some f \<Rightarrow> Inr (foldl join f parts))"

definition dirname :: "string \<Rightarrow> string" where
  "dirname p =
     (let head = rev (dropWhile (\<lambda>c. c \<noteq> CHR ''/'') (rev p))
      in if head \<noteq> [] \<and> (\<exists>c \<in> set head. c \<noteq> CHR ''/'')
         then rev (dropWhile (\<lambda>c. c = CHR ''/'') (rev head))
         else head)"

text \<open>
  A call of \<open>predict_logits_from_preprocessed_data\<close> with the arguments that the call
  site gives. \<open>target_code\<close> has no default value, so a call without it raises
  \<open>TypeError\<close> before the body runs; \<open>properties\<close> defaults to \<open>None\<close> and \<open>with_attn\<close> to
  \<open>True\<close>.
\<close>

definition call_predict_logits_from_preprocessed_data ::
  "externals \<Rightarrow> predictor \<Rightarrow> tensor \<Rightarrow> code option \<Rightarrow> properties option \<Rightarrow> bool option \<Rightarrow>
   error + tensor \<times> tensor \<times> tensor" where
  "call_predict_logits_from_preprocessed_data ext p x target_code props with_attn =
     (case target_code of
        None \<Rightarrow> Inl TypeError
      | Some tc \<Rightarrow>
          predict_logits_from_preprocessed_data ext p x tc props
            (case with_attn of None \<Rightarrow> True | Some b \<Rightarrow> b))"

text \<open>
  \<^verbatim>\<open>self.one2one_translate_psnr[src_seq][tgt_seq].append(psnr)\<close>
\<close>

definition append_psnr ::
  "fval list list list option \<Rightarrow> nat \<Rightarrow> nat \<Rightarrow> fval \<Rightarrow> error + fval list list list option" where
  "append_psnr table src_seq tgt_seq psnr =
     (case table of
        None \<Rightarrow> Inl AttributeError
      | Some t \<Rightarrow>
          bind_err (nth_err t src_seq) (\<lambda>row.
          bind_err (nth_err row tgt_seq) (\<lambda>cell.
            Inr (Some (t[src_seq := row[tgt_seq := cell @ [psnr]]])))))"

text \<open>
  \<^verbatim>\<open>xs.index(x)\<close> for an \<open>x\<close> that is in \<open>xs\<close>.
\<close>

definition index_of :: "nat list \<Rightarrow> nat \<Rightarrow> nat" where
  "index_of xs x = length (takeWhile (\<lambda>y. y \<noteq> x) xs)"

definition submit :: "job \<Rightarrow> run_state \<Rightarrow> run_state" where
  "submit j st = st\<lparr>submitted := submitted st @ [j]\<rparr>"

definition makedirs :: "string \<Rightarrow> run_state \<Rightarrow> run_state" where
  "makedirs d st = st\<lparr>made_dirs := made_dirs st @ [d]\<rparr>"

text \<open>
  Lines 429 to 436, when the target is itself an available sequence: the prediction is
  matched to the target image, the absolute difference is added to \<open>md\<close>, and the PSNR of
  the pair is appended to the table.
\<close>

definition observe_psnr ::
  "externals \<Rightarrow> preprocessed \<Rightarrow> nat \<Rightarrow> tensor \<Rightarrow> tensor \<times> run_state \<Rightarrow> nat \<Rightarrow>
   error + tensor \<times> run_state" where
  "observe_psnr ext pre tgt_seq prediction acc src_seq =
     (case acc of (md, st) \<Rightarrow>
      let available = available_channel (pre_properties pre) in
      if tgt_seq \<in> set available then
        (let tgt_idx = index_of available tgt_seq in
         bind_err (getitem [Range tgt_idx (tgt_idx + 1)] (pre_data pre)) (\<lambda>target.
         let hm_prediction = linearMatch ext prediction target in
         bind_err (elementwise fsub hm_prediction target) (\<lambda>difference.
         bind_err (iadd md (tmap fabs difference)) (\<lambda>md'.
         bind_err (append_psnr (psnr_table st) src_seq tgt_seq
                     (torch_PSNR ext target hm_prediction)) (\<lambda>table'.
           Inr (md', st\<lparr>psnr_table := table'\<rparr>))))))
      else Inr (md, st))"

text \<open>
  Lines 438 to 489, for a case with an \<open>ofile\<close>: the directories and the export jobs of
  one source, and after the last source the imaging differentiation map.
\<close>

definition export_source ::
  "bool \<Rightarrow> preprocessed \<Rightarrow> string \<Rightarrow> nat \<Rightarrow> nat \<Rightarrow> nat \<Rightarrow> tensor \<Rightarrow> tensor \<Rightarrow> tensor \<Rightarrow>
   tensor \<Rightarrow> tensor \<times> run_state \<Rightarrow> tensor \<times> run_state" where
  "export_source save_probabilities pre ofile tgt_seq src_idx src_seq source prediction
     prediction_mask prediction_latent acc =
     (case acc of (md, st) \<Rightarrow>
      let available = available_channel (pre_properties pre);
          st2 = makedirs (join ofile ''normalized_source_images'') st;
          st3 = (if tgt_seq = 0
                 then submit (ExportPrediction source
                        (join (join ofile ''normalized_source_images'')
                           (''norm_src_'' @ decimal src_seq))
                        save_probabilities False) st2
                 else st2);
          st4 = makedirs (join ofile ''one2one_inference'') st3;
          st5 = submit (ExportPrediction prediction
                  (join (join ofile ''one2one_inference'')
                     (''translate_src_'' @ decimal src_seq @ ''_to_tgt_'' @ decimal tgt_seq))
                  save_probabilities False) st4;
          st6 = submit (ExportPrediction prediction_mask
                  (join (join ofile ''one2one_inference'') (''segment_src_'' @ decimal src_seq))
                  save_probabilities False) st5;
          st7 = makedirs (join ofile ''latent_space'') st6;
          st8 = submit (ExportPrediction prediction_latent
                  (join (join ofile ''latent_space'') (''latent_space_src_'' @ decimal src_seq))
                  save_probabilities True) st7
      in if src_idx = length available - 1 then
           (let st9 = makedirs
                        (join ofile ''explainability_visualization/imaging_differentiation_map'')
                        st8;
                md2 = idiv md (length available)
            in if tgt_seq \<in> set available
               then (md2,
                     submit (ExportPrediction md2
                       (join (join ofile
                          ''explainability_visualization/imaging_differentiation_map'')
                          (''imaging_differentiation_map_tgt_'' @ decimal tgt_seq))
                       save_probabilities False) st9)
               else (md2, st9))
         else (md, st8))"

text \<open>
  One round of the loop over the available sources (lines 424 to 510), for the source at
  position \<open>src_idx\<close> of the data with sequence index \<open>src_seq\<close>: the one-to-one
  prediction, the PSNR observation, and the export jobs, or without an \<open>ofile\<close> the
  conversion job.
\<close>

definition source_step ::
  "externals \<Rightarrow> predictor \<Rightarrow> bool \<Rightarrow> preprocessed \<Rightarrow> nat \<Rightarrow> code \<Rightarrow>
   tensor \<times> run_state \<Rightarrow> nat \<Rightarrow> nat \<Rightarrow> error + tensor \<times> run_state" where
  "source_step ext p save_probabilities pre tgt_seq tgt_code acc src_idx src_seq =
     bind_err (getitem [Range src_idx (src_idx + 1)] (pre_data pre)) (\<lambda>source.
     bind_err (call_predict_logits_from_preprocessed_data ext p source (Some tgt_code) None None)
       (\<lambda>(prediction, mask_logits, latent).
     let prediction_mask = argmax ext mask_logits in
     bind_err (interpolate_down 4 (Dim [latent])) (\<lambda>small.
     bind_err (getitem [At 0] small) (\<lambda>prediction_latent.
     bind_err (observe_psnr ext pre tgt_seq prediction acc src_seq) (\<lambda>acc1.
       case pre_ofile pre of
         Some ofile \<Rightarrow>
           Inr (export_source save_probabilities pre ofile tgt_seq src_idx src_seq source
                  prediction prediction_mask prediction_latent acc1)
       | None \<Rightarrow>
           Inr (fst acc1, submit (ConvertPrediction prediction save_probabilities) (snd acc1)))))))"

fun source_loop ::
  "externals \<Rightarrow> predictor \<Rightarrow> bool \<Rightarrow> preprocessed \<Rightarrow> nat \<Rightarrow> code \<Rightarrow>
   tensor \<times> run_state \<Rightarrow> nat \<Rightarrow> nat list \<Rightarrow> error + tensor \<times> run_state" where
  "source_loop ext p save_probabilities pre tgt_seq tgt_code acc src_idx [] = Inr acc"
| "source_loop ext p save_probabilities pre tgt_seq tgt_code acc src_idx (src_seq # rest) =
     bind_err (source_step ext p save_probabilities pre tgt_seq tgt_code acc src_idx src_seq)
       (\<lambda>acc'. source_loop ext p save_probabilities pre tgt_seq tgt_code acc' (src_idx + 1) rest)"

text \<open>
  One round of the loop over the targets (lines 391 to 510): the two fused predictions,
  their export under \<open>ofile\<close>, and the loop over the sources.
\<close>

definition target_step ::
  "externals \<Rightarrow> predictor \<Rightarrow> bool \<Rightarrow> preprocessed \<Rightarrow> run_state \<Rightarrow> nat \<Rightarrow> error + run_state" where
  "target_step ext p save_probabilities pre st tgt_seq =
     (let x = pre_data pre; props = pre_properties pre; ofile = pre_ofile pre in
      bind_err (one_hot tgt_seq (num_channel props)) (\<lambda>tgt_code.
      bind_err (call_predict_logits_from_preprocessed_data ext p x (Some tgt_code) (Some props)
                  (Some False)) (\<lambda>(tsf_prediction, mask0, latent0).
      bind_err (call_predict_logits_from_preprocessed_data ext p x (Some tgt_code) (Some props)
                  (Some True)) (\<lambda>(tsf_prediction_finetune, mask_logits, latent1).
      let tsf_prediction_mask_finetune = argmax ext mask_logits in
      bind_err (elementwise fsub tsf_prediction_finetune tsf_prediction) (\<lambda>difference.
      let tsem = tmap fabs difference in
      bind_err (join_under ofile [''multi2one_inference'']) (\<lambda>dir1.
      bind_err (join_under ofile [''multi2one_inference'', ''translate_tgt_'' @ decimal tgt_seq])
        (\<lambda>file1.
      bind_err (join_under ofile [''multi2one_inference'', ''segment'']) (\<lambda>file2.
      bind_err (join_under ofile [''explainability_visualization/task-specific_enhanced_map''])
        (\<lambda>dir2.
      bind_err (join_under ofile [''explainability_visualization/task-specific_enhanced_map'',
                  ''task-specific_enhanced_map_tgt_'' @ decimal tgt_seq]) (\<lambda>file3.
      let st1 = submit (ExportPrediction tsem file3 save_probabilities False)
                  (makedirs dir2
                    (submit (ExportPrediction tsf_prediction_mask_finetune file2
                               save_probabilities False)
                      (submit (ExportPrediction tsf_prediction_finetune file1
                                 save_probabilities False)
                        (makedirs dir1 st)))) in
      bind_err (getitem [Range 0 1] x) (\<lambda>first.
      bind_err (source_loop ext p save_probabilities pre tgt_seq tgt_code
                  (tmap (\<lambda>_. Fin 0) first, st1) 0 (available_channel props))
        (\<lambda>(md, st2). Inr st2))))))))))))"

fun target_loop ::
  "externals \<Rightarrow> predictor \<Rightarrow> bool \<Rightarrow> preprocessed \<Rightarrow> run_state \<Rightarrow> nat list \<Rightarrow>
   error + run_state" where
  "target_loop ext p save_probabilities pre st [] = Inr st"
| "target_loop ext p save_probabilities pre st (tgt_seq # rest) =
     bind_err (target_step ext p save_probabilities pre st tgt_seq)
       (\<lambda>st'. target_loop ext p save_probabilities pre st' rest)"

fun case_loop ::
  "externals \<Rightarrow> predictor \<Rightarrow> bool \<Rightarrow> run_state \<Rightarrow> preprocessed list \<Rightarrow> error + run_state" where
  "case_loop ext p save_probabilities st [] = Inr st"
| "case_loop ext p save_probabilities st (pre # rest) =
     bind_err (target_loop ext p save_probabilities pre st
                 [0..<num_channel (pre_properties pre)])
       (\<lambda>st'. case_loop ext p save_probabilities st' rest)"

text \<open>
  What a run gives: the list \<open>ret\<close>, the report written next to the output of the last
  case, and the attribute \<open>one2one_translate_psnr\<close> as the run leaves it.
\<close>

record run_result =
  ret :: "job list"
  contribution_file :: string
  contribution_rows :: "(nat \<times> fval \<times> fval) list"
  psnr_after :: "fval list list list option"

text \<open>
  Line 540: \<open>ofile\<close> is the variable of the loop over the cases, so it is unbound after
  a loop without rounds and the \<open>ofile\<close> of the last case otherwise.
\<close>

definition report_path :: "preprocessed list \<Rightarrow> error + string" where
  "report_path data_iterator =
     (if data_iterator = [] then Inl UnboundLocalError
      else case pre_ofile (last data_iterator) of
             None \<Rightarrow> Inl TypeError
           | Some ofile \<Rightarrow>
               Inr (join (dirname ofile) ''synthesis-based_sequence_contribution.csv''))"

definition predict_from_data_iterator ::
  "externals \<Rightarrow> predictor \<Rightarrow> preprocessed list \<Rightarrow> bool \<Rightarrow> error + run_result" where
  "predict_from_data_iterator ext p data_iterator save_probabilities =
     bind_err (case_loop ext p save_probabilities
                 \<lparr>submitted = [], psnr_table = one2one_translate_psnr p, made_dirs = []\<rparr>
                 data_iterator) (\<lambda>st.
     bind_err (sequence_contribution p (psnr_table st)) (\<lambda>sbsc.
     bind_err (report_path data_iterator) (\<lambda>file.
       Inr \<lparr>ret = submitted st, contribution_file = file, contribution_rows = sbsc,
            psnr_after = psnr_table st\<rparr>)))"

section \<open>Prediction from files (\<open>predict_from_files\<close>)\<close>

text \<open>
  Lines 217 to 222: the output folder is the argument itself, the directory of the first
  truncated output name, or nothing.
\<close>

definition output_folder_of :: "output_arg \<Rightarrow> error + string option" where
  "output_folder_of output_folder_or_list_of_truncated_output_files =
     (case output_folder_or_list_of_truncated_output_files of
        OutputFolder f \<Rightarrow> Inr (Some f)
      | OutputList l \<Rightarrow> (case l of [] \<Rightarrow> Inl IndexError | x # _ \<Rightarrow> Inr (Some (dirname x)))
      | OutputNone \<Rightarrow> Inr None)"

text \<open>
  Lines 226 to 250, which run only with an output folder: after the arguments, the dataset
  description and the plans are saved there, the attribute \<open>one2one_translate_psnr\<close> is
  created as an \<open>N \<times> N\<close> table of empty lists, and the task-specific contributions of
  every target code and of the segmentation code are written to
  \<open>task-specific_sequence_contribution.csv\<close>; a row holds the target index, or nothing for
  the row \<open>seg\<close>, and the contributions.
\<close>

definition task_specific_rows :: "network \<Rightarrow> (nat option \<times> real list) list" where
  "task_specific_rows net =
     map (\<lambda>tgt_id. (Some tgt_id, infer_contribution net (files_tgt_code (tsf_num_channel net) tgt_id)))
       [0..<tsf_num_channel net]
     @ [(None, infer_contribution net (files_seg_code (tsf_num_channel net)))]"

definition store_run_description ::
  "predictor \<Rightarrow> string option \<Rightarrow> predictor \<times> (nat option \<times> real list) list option" where
  "store_run_description p output_folder =
     (case output_folder of
        None \<Rightarrow> (p, None)
      | Some folder \<Rightarrow>
          (p\<lparr>one2one_translate_psnr :=
                Some (replicate (tsf_num_channel (network p))
                        (replicate (tsf_num_channel (network p)) []))\<rparr>,
           Some (task_specific_rows (network p))))"

text \<open>
  What \<open>predict_from_files\<close> leaves: the predictor with its attribute, the rows of the
  task-specific contributions if they were written, and the result of the prediction, which
  is nothing when no case is left to predict.
\<close>

record files_result =
  predictor_after :: predictor
  task_specific_contribution :: "(nat option \<times> real list) list option"
  prediction_result :: "run_result option"

text \<open>
  \<open>predict_from_files\<close> (lines 203 to 274). \<open>iterate\<close> stands for
  \<open>preprocessing_iterator_fromfiles\<close> with the cases, the segmentations of the previous
  stage and the truncated output names.
\<close>

definition predict_from_files ::
  "externals \<Rightarrow> file_env \<Rightarrow>
   (string list list \<Rightarrow> string option list \<Rightarrow> string list option \<Rightarrow> preprocessed list) \<Rightarrow>
   predictor \<Rightarrow> source_arg \<Rightarrow> output_arg \<Rightarrow> bool \<Rightarrow> bool \<Rightarrow> string option \<Rightarrow> int \<Rightarrow> int \<Rightarrow>
   error + files_result" where
  "predict_from_files ext env iterate p list_of_lists_or_source_folder
     output_folder_or_list_of_truncated_output_files save_probabilities overwrite
     folder_with_segs_from_prev_stage num_parts part_id =
     bind_err (output_folder_of output_folder_or_list_of_truncated_output_files) (\<lambda>output_folder.
     case store_run_description p output_folder of (p', ts_w) \<Rightarrow>
       if previous_stage_name p' \<noteq> None \<and> folder_with_segs_from_prev_stage = None
       then Inl AssertionError
       else
         bind_err (manage_input_and_output_lists env list_of_lists_or_source_folder
                     output_folder_or_list_of_truncated_output_files
                     folder_with_segs_from_prev_stage overwrite part_id num_parts
                     save_probabilities)
           (\<lambda>(list_of_lists, output_filename_truncated, seg_from_prev_stage_files).
              if length list_of_lists = 0
              then Inr \<lparr>predictor_after = p', task_specific_contribution = ts_w,
                        prediction_result = None\<rparr>
              else
                bind_err (predict_from_data_iterator ext p'
                            (iterate list_of_lists seg_from_prev_stage_files
                               output_filename_truncated) save_probabilities)
                  (\<lambda>r. Inr \<lparr>predictor_after = p'\<lparr>one2one_translate_psnr := psnr_after r\<rparr>,
                            task_specific_contribution = ts_w,
                            prediction_result = Some r\<rparr>)))"

section \<open>Prediction of a single array (\<open>predict_single_npy_array\<close>)\<close>

text \<open>
  Lines 548 to 586. \<open>preprocess\<close> stands for \<open>PreprocessAdapterFromNpy\<close> with one thread
  and the \<open>next\<close> that takes its only element; the image properties are any value that
  it accepts. The prediction is called with the data alone (line 565). With an output file
  the function exports the logits and returns nothing; without one it returns the
  converted segmentation, so the model gives the job that the function runs itself.
\<close>

definition predict_single_npy_array ::
  "externals \<Rightarrow> (tensor \<Rightarrow> tensor option \<Rightarrow> 'a \<Rightarrow> string option \<Rightarrow> preprocessed) \<Rightarrow> predictor \<Rightarrow>
   tensor \<Rightarrow> 'a \<Rightarrow> tensor option \<Rightarrow> string option \<Rightarrow> bool \<Rightarrow> error + job" where
  "predict_single_npy_array ext preprocess p input_image image_properties
     segmentation_previous_stage output_file_truncated save_or_return_probabilities =
     (let dct = preprocess input_image segmentation_previous_stage image_properties
                  output_file_truncated in
      bind_err (call_predict_logits_from_preprocessed_data ext p (pre_data dct) None None None)
        (\<lambda>(predicted_logits, predicted_mask_logits, predicted_latent_space).
           case output_file_truncated of
             Some file \<Rightarrow>
               Inr (ExportPrediction predicted_logits file save_or_return_probabilities False)
           | None \<Rightarrow> Inr (ConvertPrediction predicted_logits save_or_return_probabilities)))"

section \<open>Example values\<close>

text \<open>
  A tile of shape \<open>(1, 1, 2, 2, 1)\<close> with the given four values, and a network whose
  prediction keeps the value at the first corner of its input and whose latent space is
  its input: a network that is not symmetric under flips.
\<close>

definition tile_2x2 :: "real \<Rightarrow> real \<Rightarrow> real \<Rightarrow> real \<Rightarrow> tensor" where
  "tile_2x2 a b c d =
     Dim [Dim [Dim [Dim [Dim [Sc (Fin a)], Dim [Sc (Fin b)]],
                    Dim [Dim [Sc (Fin c)], Dim [Sc (Fin d)]]]]]"

definition corner_network :: network where
  "corner_network =
     \<lparr>forward = (\<lambda>x c. (tzip fmul x (tile_2x2 1 0 0 0), x)), segmentor = (\<lambda>t. t),
      image_encoder = (\<lambda>t. t), tsf = (\<lambda>t c. (t, t)), hyper_decoder = (\<lambda>t c. t),
      infer_contribution = (\<lambda>c. [1]), tsf_num_channel = 1,
      image_encoder_latent_space_dim = 1\<rparr>"

definition mirroring_predictor :: predictor where
  "mirroring_predictor =
     \<lparr>tile_step_size = 1 / 2, use_gaussian = False, use_mirroring = True,
      perform_everything_on_device = False, device = Cpu,
      allowed_mirroring_axes = Some [0, 1], list_of_parameters = [corner_network],
      network = corner_network, patch_size = [2, 2, 1], previous_stage_name = None,
      num_segmentation_heads = 1,
      one2one_translate_psnr = None\<rparr>"

text \<open>
  An image of shape \<open>(1, 1, 4, 4)\<close> for a configuration with patches of size \<open>(4, 4)\<close>, the
  functions from outside with a device memory that may be exhausted, and two networks: one
  whose prediction is its input, and one whose prediction is infinite everywhere.
\<close>

definition example_image :: tensor where
  "example_image =
     Dim [Dim [Dim [Dim (map (\<lambda>v. Sc (Fin v)) [1, 2, 3, 4]),
                    Dim (map (\<lambda>v. Sc (Fin v)) [5, 6, 7, 8]),
                    Dim (map (\<lambda>v. Sc (Fin v)) [1, 2, 3, 4]),
                    Dim (map (\<lambda>v. Sc (Fin v)) [5, 6, 7, 8])]]]"

definition example_externals :: "(device \<Rightarrow> bool) \<Rightarrow> externals" where
  "example_externals oom =
     \<lparr>pad_nd_image = (\<lambda>t ps. (t, [Whole, Range 0 1, Range 0 4, Range 0 4])),
      compute_steps_for_sliding_window = (\<lambda>image_size ps step. [[0], [0]]),
      compute_gaussian = (\<lambda>ps. tmap (\<lambda>_. Fin 2) (zeros ps)),
      out_of_memory = oom,
      linearMatch = (\<lambda>a b. a), torch_PSNR = (\<lambda>a b. Fin 30), argmax = (\<lambda>t. t)\<rparr>"

definition identity_network :: network where
  "identity_network =
     \<lparr>forward = (\<lambda>x c. (x, zeros [1, 1, 1, 1])), segmentor = (\<lambda>t. zeros [1, 2, 4, 4]),
      image_encoder = (\<lambda>t. zeros [1, 1, 1, 1]), tsf = (\<lambda>t c. (t, t)),
      hyper_decoder = (\<lambda>t c. zeros [1, 1, 4, 4]),
      infer_contribution = (\<lambda>c. [1]), tsf_num_channel = 1,
      image_encoder_latent_space_dim = 1\<rparr>"


definition example_predictor :: "network \<Rightarrow> bool \<Rightarrow> device \<Rightarrow> predictor" where
  "example_predictor net on_device dev =
     \<lparr>tile_step_size = 1 / 2, use_gaussian = True, use_mirroring = True,
      perform_everything_on_device = on_device, device = dev,
      allowed_mirroring_axes = Some [0, 1], list_of_parameters = [net], network = net,
      patch_size = [4, 4], previous_stage_name = None, num_segmentation_heads = 2,
      one2one_translate_psnr = Some [[[]]]\<rparr>"

text \<open>
  A case of the example image with one sequence, which is available.
\<close>

definition example_case :: "string option \<Rightarrow> preprocessed" where
  "example_case ofile =
     \<lparr>pre_data = example_image, pre_ofile = ofile,
      pre_properties = \<lparr>num_channel = 1, available_channel = [0]\<rparr>\<rparr>"

chapter \<open>Properties\<close>

section \<open>The image encoder (networks/seq2seq/model3d/encoder.py)\<close>

text \<open>
  C9 (as amended). The secondary convolution of the image encoder has kernel 2 and stride 2
  and multiplies the channel count by eight (one factor two for each of the three strided
  axes): its output channel count is exactly eight times the latent-space dimension that
  is its input channel count.
\<close>

theorem encoder_p_channels:
  "in_channels (encoder_p args) = latent_space_dim args \<and>
   out_channels (encoder_p args) = 8 * in_channels (encoder_p args) \<and>
   kernel_size (encoder_p args) = 2 \<and> stride (encoder_p args) = 2 \<and>
   padding (encoder_p args) = 0"
  by (simp add: encoder_p_def)

text \<open>
  C9 as stated fails: with latent-space dimension 1 the convolution has 8 output channels,
  not 2.
\<close>

theorem encoder_p_not_doubling:
  "out_channels (encoder_p \<lparr>latent_space_dim = 1, vq_beta = 1 / 4, vq_n_embed = 8\<rparr>) = 8 \<and>
   out_channels (encoder_p \<lparr>latent_space_dim = 1, vq_beta = 1 / 4, vq_n_embed = 8\<rparr>)
     \<noteq> 2 * in_channels (encoder_p \<lparr>latent_space_dim = 1, vq_beta = 1 / 4, vq_n_embed = 8\<rparr>)"
  by (simp add: encoder_p_def)

section \<open>Source, target and segmentation codes (inference/predict_from_raw_data.py)\<close>

lemma fused_layout_build:
  "fused_layout n src tgt
     (map (\<lambda>i. if src i then 1 else 0) [0..<n] @
      map (\<lambda>i. if Some i = tgt then 1 else 0) [0..<n] @ [if tgt = None then 1 else 0])"
  by (simp add: fused_layout_def nth_append)

lemma count_one_hot:
  "t < n \<Longrightarrow> length (filter (\<lambda>v. v = (1::real)) (map (\<lambda>i. if i = t then 1 else 0) [0..<n])) = 1"
proof (induction n)
  case 0
  then show ?case by simp
next
  case (Suc n)
  show ?case
  proof (cases "t = n")
    case True
    have "filter (\<lambda>v. v = (1::real)) (map (\<lambda>i. if i = t then 1 else 0) [0..<n]) = []"
      using True by (auto simp: filter_empty_conv)
    then show ?thesis using True by simp
  next
    case False
    then have "t < n" using Suc.prems by simp
    then show ?thesis using Suc.IH False by simp
  qed
qed

text \<open>
  C5. Every fused code the predictor builds has \<open>2 * num_channel + 1\<close> slots: the
  source-availability mask (zeros and ones), then the target indicator (a single one at
  the target index for a translation code, zeros for a segmentation code), then the
  segmentation flag (one exactly for a segmentation code). This holds for the codes of the
  fusion path, whose target code is the one-hot code that \<open>predict_from_data_iterator\<close>
  builds for a target in \<open>range(num_channel)\<close>, and for the codes of the contribution
  table of \<open>predict_from_files\<close>, where every sequence but the target is a source.
\<close>

theorem fused_codes_layout:
  assumes "tgt_seq < num_channel props" and "tgt_id < n"
  shows "\<exists>tc ct cs ft fs.
           one_hot tgt_seq (num_channel props) = Inr tc \<and>
           tsf_tgt_code props tc = Inr [ct] \<and>
           tsf_seg_code props tc = Inr [cs] \<and>
           files_tgt_code n tgt_id = [ft] \<and>
           files_seg_code n = [fs] \<and>
           fused_layout (num_channel props) (\<lambda>i. i \<in> set (available_channel props))
             (Some tgt_seq) ct \<and>
           fused_layout (num_channel props) (\<lambda>i. i \<in> set (available_channel props)) None cs \<and>
           fused_layout n (\<lambda>i. i \<noteq> tgt_id) (Some tgt_id) ft \<and>
           fused_layout n (\<lambda>i. True) None fs \<and>
           length (filter (\<lambda>v. v = 1) (take (num_channel props) (drop (num_channel props) ct))) = 1 \<and>
           ct ! (num_channel props + tgt_seq) = 1 \<and>
           length (filter (\<lambda>v. v = 1) (take n (drop n ft))) = 1 \<and>
           ft ! (n + tgt_id) = 1"
proof -
  let ?nc = "num_channel props"
  let ?src = "map (\<lambda>i. if i \<in> set (available_channel props) then 1 else 0) [0..<?nc] :: real list"
  let ?hot = "\<lambda>m t. map (\<lambda>i. if Some i = Some t then 1 else (0::real)) [0..<m]"
  let ?ct = "?src @ ?hot ?nc tgt_seq @ [if Some tgt_seq = None then 1 else 0]"
  let ?cs = "?src @ map (\<lambda>i. if Some i = None then 1 else (0::real)) [0..<?nc]
               @ [if (None::nat option) = None then 1 else 0]"
  let ?ft = "map (\<lambda>i. if i \<noteq> tgt_id then 1 else 0) [0..<n] @ ?hot n tgt_id
               @ [if Some tgt_id = None then 1 else (0::real)]"
  let ?fs = "map (\<lambda>i. if True then 1 else 0) [0..<n]
               @ map (\<lambda>i. if Some i = None then 1 else (0::real)) [0..<n]
               @ [if (None::nat option) = None then 1 else 0]"
  have hot: "one_hot tgt_seq ?nc = Inr [?hot ?nc tgt_seq]"
    using assms(1) by (simp add: one_hot_def)
  have tgt: "tsf_tgt_code props [?hot ?nc tgt_seq] = Inr [?ct]"
    by (simp add: tsf_tgt_code_def tsf_src_code_def cat_dim1_def)
  have seg: "tsf_seg_code props [?hot ?nc tgt_seq] = Inr [?cs]"
    by (simp add: tsf_seg_code_def tsf_src_code_def cat_dim1_def comp_def)
  have ft: "files_tgt_code n tgt_id = [?ft]"
    by (simp add: files_tgt_code_def)
  have fs: "files_seg_code n = [?fs]"
    by (simp add: files_seg_code_def)
  have l1: "fused_layout ?nc (\<lambda>i. i \<in> set (available_channel props)) (Some tgt_seq) ?ct"
    by (rule fused_layout_build)
  have l2: "fused_layout ?nc (\<lambda>i. i \<in> set (available_channel props)) None ?cs"
    by (rule fused_layout_build)
  have l3: "fused_layout n (\<lambda>i. i \<noteq> tgt_id) (Some tgt_id) ?ft"
    by (rule fused_layout_build)
  have l4: "fused_layout n (\<lambda>i. True) None ?fs"
    by (rule fused_layout_build)
  have c1: "length (filter (\<lambda>v. v = 1) (take ?nc (drop ?nc ?ct))) = 1"
    using count_one_hot [OF assms(1)] by simp
  have p1: "?ct ! (?nc + tgt_seq) = 1"
    using assms(1) by (simp add: nth_append)
  have c2: "length (filter (\<lambda>v. v = 1) (take n (drop n ?ft))) = 1"
    using count_one_hot [OF assms(2)] by simp
  have p2: "?ft ! (n + tgt_id) = 1"
    using assms(2) by (simp add: nth_append)
  from hot tgt seg ft fs l1 l2 l3 l4 c1 p1 c2 p2 show ?thesis
    by blast
qed

theorem fused_codes_layout_witness:
  "\<exists>tc ct cs ft fs.
     one_hot 2 (num_channel \<lparr>num_channel = 4, available_channel = [0, 1, 3]\<rparr>) = Inr tc \<and>
     tsf_tgt_code \<lparr>num_channel = 4, available_channel = [0, 1, 3]\<rparr> tc = Inr [ct] \<and>
     tsf_seg_code \<lparr>num_channel = 4, available_channel = [0, 1, 3]\<rparr> tc = Inr [cs] \<and>
     files_tgt_code 4 2 = [ft] \<and>
     files_seg_code 4 = [fs] \<and>
     fused_layout 4 (\<lambda>i. i \<in> set [0, 1, 3]) (Some 2) ct \<and>
     fused_layout 4 (\<lambda>i. i \<in> set [0, 1, 3]) None cs \<and>
     fused_layout 4 (\<lambda>i. i \<noteq> 2) (Some 2) ft \<and>
     fused_layout 4 (\<lambda>i. True) None fs \<and>
     length (filter (\<lambda>v. v = 1) (take 4 (drop 4 ct))) = 1 \<and>
     ct ! 6 = 1 \<and>
     length (filter (\<lambda>v. v = 1) (take 4 (drop 4 ft))) = 1 \<and>
     ft ! 6 = 1"
  using fused_codes_layout [of 2 "\<lparr>num_channel = 4, available_channel = [0, 1, 3]\<rparr>" 2 4]
  by simp

section \<open>Input and output lists (\<open>_manage_input_and_output_lists\<close>)\<close>








section \<open>Mirror-augmented prediction of one tile (\<open>_internal_maybe_mirror_and_predict\<close>)\<close>

lemma bind_err_simps [simp]:
  "bind_err (Inl e) f = Inl e" "bind_err (Inr x) f = f x"
  by (simp_all add: bind_err_def)

lemma length_combinations: "length (combinations xs r) = length xs choose r"
  by (induction xs r rule: combinations.induct) simp_all

lemma Nil_subseqs: "[] \<in> set (subseqs xs)"
  by (induction xs) (simp_all add: Let_def)

lemma length_subseq_le: "ys \<in> set (subseqs xs) \<Longrightarrow> length ys \<le> length xs"
  by (induction xs arbitrary: ys) (auto simp: Let_def le_SucI)

lemma set_combinations:
  "set (combinations xs r) = {ys \<in> set (subseqs xs). length ys = r}"
proof (induction xs r rule: combinations.induct)
  case (1 xs)
  then show ?case by (auto simp: Nil_subseqs) 
next
  case (2 r)
  then show ?case by simp
next
  case (3 x xs r)
  then show ?case by (auto simp: Let_def)
qed

lemma length_axes_combinations: "length (axes_combinations axes) = 2 ^ length axes - 1"
proof -
  let ?k = "length axes"
  have "length (axes_combinations axes) = (\<Sum>i<?k. ?k choose (Suc i))"
    by (simp add: axes_combinations_def length_concat comp_def length_combinations
        sum_list_sum_nth atLeast0LessThan)
  also have "\<dots> = (\<Sum>i\<le>?k. ?k choose i) - 1"
  proof -
    have "(\<Sum>i\<le>?k. ?k choose i) = (?k choose 0) + (\<Sum>i<?k. ?k choose (Suc i)) + (?k choose (Suc ?k))"
      by (metis (no_types, lifting) ext add.commute add.right_neutral binomial_eq_0_iff lessI
          lessThan_Suc_atMost sum.lessThan_Suc_shift)
    then show ?thesis by simp
  qed
  finally show ?thesis by (simp add: choose_row_sum)
qed

lemma set_axes_combinations:
  "set (axes_combinations axes) = {ys \<in> set (subseqs (map (\<lambda>m. m + 2) axes)). ys \<noteq> []}"
proof -
  let ?xs = "map (\<lambda>m. m + 2) axes"
  have "set (axes_combinations axes) = (\<Union>i<length axes. {ys \<in> set (subseqs ?xs). length ys = Suc i})"
    by (auto simp: axes_combinations_def set_combinations)
  also have "\<dots> = {ys \<in> set (subseqs ?xs). ys \<noteq> []}"
  proof (intro set_eqI iffI)
    fix ys
    assume "ys \<in> (\<Union>i<length axes. {ys \<in> set (subseqs ?xs). length ys = Suc i})"
    then show "ys \<in> {ys \<in> set (subseqs ?xs). ys \<noteq> []}" by auto
  next
    fix ys
    assume a: "ys \<in> {ys \<in> set (subseqs ?xs). ys \<noteq> []}"
    then have "length ys \<le> length axes" using length_subseq_le [of ys ?xs] by simp
    moreover have "0 < length ys" using a by simp
    ultimately have "length ys - 1 < length axes" "length ys = Suc (length ys - 1)" by linarith+
    then show "ys \<in> (\<Union>i<length axes. {ys \<in> set (subseqs ?xs). length ys = Suc i})"
      using a by blast
  qed
  finally show ?thesis .
qed

lemma subsets_axes_combinations:
  "set (map set (axes_combinations axes)) = {S. S \<subseteq> (\<lambda>m. m + 2) ` set axes \<and> S \<noteq> {}}"
proof -
  let ?xs = "map (\<lambda>m. m + 2) axes"
  have "set (map set (axes_combinations axes)) = set ` {ys \<in> set (subseqs ?xs). ys \<noteq> []}"
    by (simp add: set_axes_combinations)
  also have "\<dots> = set ` set (subseqs ?xs) - {{}}"
    by auto
  also have "\<dots> = Pow (set ?xs) - {{}}"
    by (simp add: subseqs_powset)
  finally show ?thesis by auto
qed

lemma distinct_axes_combinations:
  assumes "distinct axes"
  shows "distinct (map set (axes_combinations axes))"
proof -
  have inj: "distinct (map (\<lambda>m. m + 2) axes)"
    using assms by (simp add: distinct_map inj_on_def)
  have "inj_on (\<lambda>m. m + 2) (set axes)" by (simp add: inj_on_def)
  then have "card ((\<lambda>m. m + 2) ` set axes) = length axes"
    using assms by (simp only: card_image distinct_card)
  then have "card (Pow ((\<lambda>m. m + 2) ` set axes) - {{}}) = 2 ^ length axes - 1"
    by (simp add: card_Pow card_Diff_singleton)
  moreover have "set (map set (axes_combinations axes)) = Pow ((\<lambda>m. m + 2) ` set axes) - {{}}"
    unfolding subsets_axes_combinations by auto
  ultimately have "card (set (map set (axes_combinations axes))) = 2 ^ length axes - 1"
    by (simp only:)
  then have "card (set (map set (axes_combinations axes))) = length (map set (axes_combinations axes))"
    by (simp only: length_map length_axes_combinations)
  then show ?thesis by (rule card_distinct)
qed

lemma same_shape_tzip:
  "same_shape a b \<Longrightarrow> same_shape (tzip f a b) c = same_shape a c"
proof (induction a arbitrary: b c)
  case (Sc v)
  then show ?case by (cases b; cases c) simp_all
next
  case (Dim as)
  from Dim.prems obtain bs where b: "b = Dim bs" and ab: "list_all2 same_shape as bs"
    by (cases b) simp_all
  show ?case
  proof (cases c)
    case (Sc w)
    then show ?thesis using b by simp
  next
    case c: (Dim cs)
    have len: "length as = length bs" using ab by (rule list_all2_lengthD)
    have "list_all2 same_shape (map (\<lambda>(a, b). tzip f a b) (zip as bs)) cs = list_all2 same_shape as cs"
    proof (cases "length cs = length as")
      case True
      have "\<And>i. i < length as \<Longrightarrow>
          same_shape (tzip f (as ! i) (bs ! i)) (cs ! i) = same_shape (as ! i) (cs ! i)"
        using Dim.IH ab by (simp add: list_all2_conv_all_nth)
      then show ?thesis using True len by (simp add: list_all2_conv_all_nth)
    next
      case False
      then show ?thesis using len by (auto dest: list_all2_lengthD)
    qed
    then show ?thesis using b c by simp
  qed
qed

lemma mirror_step_sum:
  assumes "flipped_prediction pass input axes = Inr (a, b, c)"
    and "same_shape prediction a" and "same_shape prediction_mask b" and "same_shape latent_space c"
  shows "mirror_step pass input (prediction, prediction_mask, latent_space) axes =
           Inr (tzip fadd prediction a, tzip fadd prediction_mask b, tzip fadd latent_space c)"
  using assms
  by (auto simp: flipped_prediction_def mirror_step_def bind_err_def iadd_def elementwise_def
      split: sum.splits prod.splits)

lemma mirror_loop_sum:
  assumes "\<forall>c \<in> set cs. flipped_prediction pass input c = Inr (P c, M c, L c) \<and>
             same_shape p0 (P c) \<and> same_shape m0 (M c) \<and> same_shape l0 (L c)"
  shows "mirror_loop pass input (p0, m0, l0) cs =
           Inr (foldl (tzip fadd) p0 (map P cs), foldl (tzip fadd) m0 (map M cs),
                foldl (tzip fadd) l0 (map L cs))"
  using assms
proof (induction cs arbitrary: p0 m0 l0)
  case Nil
  then show ?case by simp
next
  case (Cons c cs)
  have step: "mirror_step pass input (p0, m0, l0) c =
      Inr (tzip fadd p0 (P c), tzip fadd m0 (M c), tzip fadd l0 (L c))"
    using Cons.prems by (intro mirror_step_sum) simp_all
  have "\<forall>d \<in> set cs. flipped_prediction pass input d = Inr (P d, M d, L d) \<and>
      same_shape (tzip fadd p0 (P c)) (P d) \<and> same_shape (tzip fadd m0 (M c)) (M d) \<and>
      same_shape (tzip fadd l0 (L c)) (L d)"
    using Cons.prems by (simp add: same_shape_tzip)
  from Cons.IH [OF this] show ?case
    by (simp add: step)
qed

lemma max_of_member: "xs \<noteq> [] \<Longrightarrow> \<exists>m. max_of xs = Inr m \<and> m \<in> set xs"
proof -
  have "fold max ys y \<in> set (y # ys)" for y :: nat and ys
    by (induction ys arbitrary: y) (auto simp: max_def)
  then show "xs \<noteq> [] \<Longrightarrow> \<exists>m. max_of xs = Inr m \<and> m \<in> set xs"
    by (cases xs) (simp_all add: max_of_def)
qed

text \<open>
  C1. With mirroring enabled and \<open>k \<ge> 1\<close> distinct mirror axes that fit the rank of the
  tile, the loop runs one flipped forward pass for every non-empty subset of the axes,
  \<open>2 ^ k - 1\<close> in all, and the three results are the sums of the original and the
  flipped-back outputs divided by \<open>2 ^ k\<close>. The hypotheses on \<open>pass\<close> say that every
  forward pass succeeds and that its flipped-back outputs have the shapes of the original
  outputs, as torch needs for the accumulation.
\<close>

theorem mirror_averaging:
  assumes mirroring: "use_mirroring p" "allowed_mirroring_axes p = Some axes"
    and axes: "axes \<noteq> []" "distinct axes" "\<forall>a \<in> set axes. a + 3 \<le> ndim x"
    and logic: "forward_logic p x target_code props with_attn = Inr (input, pass)"
    and first: "pass input = Inr (p0, m0, l0)"
    and flipped: "\<forall>c \<in> set (axes_combinations axes).
                    flipped_prediction pass input c = Inr (P c, M c, L c) \<and>
                    same_shape p0 (P c) \<and> same_shape m0 (M c) \<and> same_shape l0 (L c)"
  shows "length (axes_combinations axes) = 2 ^ length axes - 1 \<and>
         distinct (map set (axes_combinations axes)) \<and>
         set (map set (axes_combinations axes)) = {S. S \<subseteq> (\<lambda>m. m + 2) ` set axes \<and> S \<noteq> {}} \<and>
         internal_maybe_mirror_and_predict p x target_code props with_attn =
           Inr (idiv (foldl (tzip fadd) p0 (map P (axes_combinations axes))) (2 ^ length axes),
                idiv (foldl (tzip fadd) m0 (map M (axes_combinations axes))) (2 ^ length axes),
                idiv (foldl (tzip fadd) l0 (map L (axes_combinations axes))) (2 ^ length axes))"
proof -
  obtain m where m: "max_of axes = Inr m" "m \<in> set axes"
    using max_of_member [OF axes(1)] by blast
  then have fits: "int m \<le> int (ndim x) - 3"
    using axes(3) by fastforce
  have count: "length (axes_combinations axes) + 1 = 2 ^ length axes"
    by (simp add: length_axes_combinations)
  have run: "internal_maybe_mirror_and_predict p x target_code props with_attn =
      Inr (idiv (foldl (tzip fadd) p0 (map P (axes_combinations axes))) (2 ^ length axes),
           idiv (foldl (tzip fadd) m0 (map M (axes_combinations axes))) (2 ^ length axes),
           idiv (foldl (tzip fadd) l0 (map L (axes_combinations axes))) (2 ^ length axes))"
    unfolding internal_maybe_mirror_and_predict_def
    by (simp add: mirroring logic first m(1) fits mirror_loop_sum [OF flipped] count Let_def
        del: One_nat_def)
  show ?thesis
    using run length_axes_combinations distinct_axes_combinations [OF axes(2)]
      subsets_axes_combinations
    by blast
qed

lemma ndim_tile_2x2: "ndim (tile_2x2 a b c d) = 5"
  by (simp add: ndim_def tile_2x2_def)

lemma axes_combinations_two: "axes_combinations [0, 1] = [[2], [3], [2, 3]]"
  by (simp add: axes_combinations_def upt_conv_Cons numeral_2_eq_2)

lemma flip_tile_2x2:
  "flip [2] (tile_2x2 a b c d) = Inr (tile_2x2 c d a b)"
  "flip [3] (tile_2x2 a b c d) = Inr (tile_2x2 b a d c)"
  "flip [2, 3] (tile_2x2 a b c d) = Inr (tile_2x2 d c b a)"
  by (simp_all add: flip_def ndim_def tile_2x2_def numeral_2_eq_2 numeral_3_eq_3)

theorem mirror_averaging_witness:
  "internal_maybe_mirror_and_predict mirroring_predictor (tile_2x2 1 2 3 4) [[1]] None True =
     Inr (tile_2x2 (1 / 4) (1 / 2) (3 / 4) 1, tile_2x2 1 2 3 4, tile_2x2 1 2 3 4)"
proof -
  let ?pass = "\<lambda>x'. Inr (network_pass corner_network [[1]] x')"
  let ?P = "\<lambda>c. if c = [2] then tile_2x2 0 0 3 0
                else if c = [3] then tile_2x2 0 2 0 0 else tile_2x2 0 0 0 4"
  let ?I = "\<lambda>c :: nat list. tile_2x2 1 2 3 4"
  have h1: "use_mirroring mirroring_predictor"
    and h2: "allowed_mirroring_axes mirroring_predictor = Some [0, 1]"
    by (simp_all add: mirroring_predictor_def)
  have h3: "[0, 1 :: nat] \<noteq> []" and h4: "distinct [0, 1 :: nat]"
    and h5: "\<forall>a \<in> set [0, 1 :: nat]. a + 3 \<le> ndim (tile_2x2 1 2 3 4)"
    by (simp_all add: ndim_tile_2x2)
  have h6: "forward_logic mirroring_predictor (tile_2x2 1 2 3 4) [[1]] None True
      = Inr (tile_2x2 1 2 3 4, ?pass)"
    by (simp add: forward_logic_def mirroring_predictor_def)
  have h7: "?pass (tile_2x2 1 2 3 4) = Inr (tile_2x2 1 0 0 0, tile_2x2 1 2 3 4, tile_2x2 1 2 3 4)"
    by (simp add: network_pass_def corner_network_def tile_2x2_def)
  have h8: "\<forall>c \<in> set (axes_combinations [0, 1]).
      flipped_prediction ?pass (tile_2x2 1 2 3 4) c = Inr (?P c, ?I c, ?I c) \<and>
      same_shape (tile_2x2 1 0 0 0) (?P c) \<and> same_shape (tile_2x2 1 2 3 4) (?I c) \<and>
      same_shape (tile_2x2 1 2 3 4) (?I c)"
    unfolding axes_combinations_two
    by (simp add: flipped_prediction_def flip_tile_2x2 network_pass_def corner_network_def)
      (simp add: tile_2x2_def flip_def ndim_def numeral_2_eq_2 numeral_3_eq_3)
  have count: "(2::nat) ^ length [0::nat, 1] = 4"
    by simp
  show ?thesis
    using mirror_averaging [OF h1 h2 h3 h4 h5 h6 h7 h8]
    unfolding axes_combinations_two count
    by (simp add: tile_2x2_def idiv_def)
qed

section \<open>Sliding-window prediction\<close>







section \<open>Synthesis-based sequence contribution (lines 516 to 540)\<close>

lemma fsum_Fin: "fsum (map Fin xs) = Fin (sum_list xs)"
proof -
  have "foldl fadd (Fin a) (map Fin xs) = Fin (a + sum_list xs)" for a
    by (induction xs arbitrary: a) (simp_all add: add.assoc)
  then show ?thesis by (simp add: fsum_def)
qed

lemma filter_nan_Fin: "filter (\<lambda>x. x \<noteq> NaN) (map Fin xs) = map Fin xs"
  by (induction xs) simp_all

lemma nanmean_Fin: "xs \<noteq> [] \<Longrightarrow> nanmean (map Fin xs) = Fin (mean xs)"
  by (simp add: nanmean_def filter_nan_Fin fsum_Fin mean_def)

lemma mean_nonneg: "\<forall>x \<in> set xs. 0 \<le> x \<Longrightarrow> 0 \<le> mean xs"
  by (simp add: mean_def sum_list_nonneg)

lemma std_nonneg: "0 \<le> std xs"
  by (simp add: std_def mean_nonneg)

lemma nanstd_Fin: "xs \<noteq> [] \<Longrightarrow> nanstd (map Fin xs) = Fin (std xs)"
proof -
  assume ne: "xs \<noteq> []"
  let ?sq = "map (\<lambda>x. (x - mean xs)\<^sup>2) xs"
  have sq: "map (\<lambda>x. fmul (fsub x (Fin (mean xs))) (fsub x (Fin (mean xs)))) (map Fin xs)
      = map Fin ?sq"
    by (simp add: fsub_def power2_eq_square)
  have nonneg: "0 \<le> mean ?sq"
    by (rule mean_nonneg) auto
  have "nanstd (map Fin xs) =
      fsqrt (fdiv (fsum (map (\<lambda>x. fmul (fsub x (Fin (mean xs))) (fsub x (Fin (mean xs))))
                           (map Fin xs)))
                  (Fin (real (length xs))))"
    using ne by (simp add: nanstd_def filter_nan_Fin nanmean_Fin Let_def del: map_map)
  also have "\<dots> = fsqrt (fdiv (fsum (map Fin ?sq)) (Fin (real (length xs))))"
    by (simp only: sq)
  also have "\<dots> = fsqrt (Fin (mean ?sq))"
  proof -
    have "fdiv (fsum (map Fin ys)) (Fin (real (length xs))) = Fin (sum_list ys / real (length xs))"
      for ys using ne by (simp add: fsum_Fin)
    then show ?thesis by (simp only: mean_def length_map)
  qed
  also have "\<dots> = Fin (std xs)"
    using nonneg by (simp add: std_def)
  finally show ?thesis .
qed

lemma score_Fin:
  assumes "c \<noteq> []" and "e \<noteq> []"
  shows "score (map Fin c) (map Fin e) = Fin ((mean c - mean e) / (std e + 1 / 10 ^ 9))"
proof -
  have "std e + 1 / 10 ^ 9 \<noteq> 0"
    using std_nonneg [of e] by (smt (verit) divide_pos_pos zero_less_power zero_less_one)
  then show ?thesis
    using assms by (simp add: score_def nanmean_Fin nanstd_Fin fsub_def)
qed

lemma nth_err_simps [simp]: "i < length xs \<Longrightarrow> nth_err xs i = Inr (xs ! i)"
  by (simp add: nth_err_def)

lemma fill_row_nth:
  assumes "i < length table" and "\<forall>j \<in> set js. j < length (table ! i)"
    and "i < length A"
  shows "\<exists>A'. fill_row table i A js = Inr A' \<and> length A' = length A \<and>
           (\<forall>k. k \<noteq> i \<longrightarrow> A' ! k = A ! k) \<and> length (A' ! i) = length (A ! i) \<and>
           (\<forall>j < length (A ! i). A' ! i ! j =
              (if j \<in> set js \<and> table ! i ! j \<noteq> [] then score (table ! i ! j) (all_psnr table)
               else A ! i ! j))"
  using assms
proof (induction js arbitrary: A)
  case Nil
  then show ?case by simp
next
  case (Cons j js)
  show ?case
  proof (cases "table ! i ! j = []")
    case True
    from Cons.IH [of A] Cons.prems obtain A' where
      "fill_row table i A js = Inr A'" "length A' = length A"
      "\<forall>k. k \<noteq> i \<longrightarrow> A' ! k = A ! k" "length (A' ! i) = length (A ! i)"
      "\<forall>j < length (A ! i). A' ! i ! j =
              (if j \<in> set js \<and> table ! i ! j \<noteq> [] then score (table ! i ! j) (all_psnr table)
               else A ! i ! j)"
      by auto
    then show ?thesis using True Cons.prems by auto
  next
    case False
    let ?A1 = "A[i := (A ! i)[j := score (table ! i ! j) (all_psnr table)]]"
    have "i < length ?A1" using Cons.prems by simp
    from Cons.IH [OF _ _ this] Cons.prems obtain A' where A':
      "fill_row table i ?A1 js = Inr A'" "length A' = length ?A1"
      "\<forall>k. k \<noteq> i \<longrightarrow> A' ! k = ?A1 ! k" "length (A' ! i) = length (?A1 ! i)"
      "\<forall>j' < length (?A1 ! i). A' ! i ! j' =
              (if j' \<in> set js \<and> table ! i ! j' \<noteq> [] then score (table ! i ! j') (all_psnr table)
               else ?A1 ! i ! j')"
      by auto
    have run: "fill_row table i A (j # js) = Inr A'"
      using False Cons.prems A'(1) by simp
    have "\<forall>j' < length (A ! i). A' ! i ! j' =
              (if j' \<in> set (j # js) \<and> table ! i ! j' \<noteq> [] then score (table ! i ! j') (all_psnr table)
               else A ! i ! j')"
    proof (intro allI impI)
      fix j' assume j': "j' < length (A ! i)"
      have upd: "?A1 ! i ! j' = (if j' = j then score (table ! i ! j) (all_psnr table) else A ! i ! j')"
        using Cons.prems(3) j' by (simp add: nth_list_update)
      have "A' ! i ! j' =
          (if j' \<in> set js \<and> table ! i ! j' \<noteq> [] then score (table ! i ! j') (all_psnr table)
           else ?A1 ! i ! j')"
        using A'(5) j' Cons.prems(3) by simp
      then show "A' ! i ! j' =
          (if j' \<in> set (j # js) \<and> table ! i ! j' \<noteq> [] then score (table ! i ! j') (all_psnr table)
           else A ! i ! j')"
        using upd False by (cases "j' = j") simp_all
    qed
    then show ?thesis
      using run A'(2,3,4) Cons.prems(3) by auto
  qed
qed

lemma fill_rows_nth:
  assumes "\<forall>i \<in> set is. i < length table \<and> i < length A"
    and "\<forall>i < length table. length (table ! i) = n"
    and "\<forall>i < length A. length (A ! i) = n"
  shows "\<exists>A'. fill_rows table n A is = Inr A' \<and> length A' = length A \<and>
           (\<forall>i < length A. length (A' ! i) = n \<and>
              (\<forall>j < n. A' ! i ! j =
                 (if i \<in> set is \<and> table ! i ! j \<noteq> [] then score (table ! i ! j) (all_psnr table)
                  else A ! i ! j)))"
  using assms
proof (induction "is" arbitrary: A)
  case Nil
  then show ?case by simp
next
  case (Cons i "is")
  have i: "i < length table" "i < length A" using Cons.prems(1) by simp_all
  have "\<forall>j \<in> set [0..<n]. j < length (table ! i)" using Cons.prems(2) i by simp
  from fill_row_nth [OF i(1) this i(2)] obtain A1 where A1:
    "fill_row table i A [0..<n] = Inr A1" "length A1 = length A"
    "\<forall>k. k \<noteq> i \<longrightarrow> A1 ! k = A ! k" "length (A1 ! i) = length (A ! i)"
    "\<forall>j < length (A ! i). A1 ! i ! j =
        (if j \<in> set [0..<n] \<and> table ! i ! j \<noteq> [] then score (table ! i ! j) (all_psnr table)
         else A ! i ! j)"
    by blast
  have rows1: "\<forall>k < length A1. length (A1 ! k) = n"
    using A1(2,3,4) Cons.prems(3) by (metis)
  have "\<forall>k \<in> set is. k < length table \<and> k < length A1"
    using Cons.prems(1) A1(2) by simp
  from Cons.IH [OF this Cons.prems(2) rows1] obtain A' where A':
    "fill_rows table n A1 is = Inr A'" "length A' = length A1"
    "\<forall>k < length A1. length (A' ! k) = n \<and>
        (\<forall>j < n. A' ! k ! j =
           (if k \<in> set is \<and> table ! k ! j \<noteq> [] then score (table ! k ! j) (all_psnr table)
            else A1 ! k ! j))"
    by blast
  have run: "fill_rows table n A (i # is) = Inr A'"
    using A1(1) A'(1) by simp
  have "\<forall>k < length A. length (A' ! k) = n \<and>
      (\<forall>j < n. A' ! k ! j =
         (if k \<in> set (i # is) \<and> table ! k ! j \<noteq> [] then score (table ! k ! j) (all_psnr table)
          else A ! k ! j))"
  proof (intro allI impI conjI)
    fix k assume k: "k < length A"
    then show "length (A' ! k) = n" using A'(3) A1(2) by simp
    fix j assume j: "j < n"
    have e: "A' ! k ! j = (if k \<in> set is \<and> table ! k ! j \<noteq> [] then score (table ! k ! j) (all_psnr table)
            else A1 ! k ! j)"
      using A'(3) A1(2) k j by simp
    show "A' ! k ! j = (if k \<in> set (i # is) \<and> table ! k ! j \<noteq> [] then score (table ! k ! j) (all_psnr table)
          else A ! k ! j)"
    proof (cases "k = i")
      case True
      have "length (A ! i) = n" using Cons.prems(3) i by simp
      then have "A1 ! i ! j = (if table ! i ! j \<noteq> [] then score (table ! i ! j) (all_psnr table) else A ! i ! j)"
        using A1(5) j by simp
      then show ?thesis using e True by simp
    next
      case False
      then show ?thesis using e A1(3) by simp
    qed
  qed
  then show ?case using run A'(2) A1(2) by simp
qed

lemma all_psnr_Fin: "all_psnr (map (map (map Fin)) obs) = map Fin (concat (concat obs))"
  by (simp add: all_psnr_def map_concat comp_def)

lemma concat_concat_nonempty:
  assumes "i < length obs" and "j < length (obs ! i)" and "obs ! i ! j \<noteq> []"
  shows "concat (concat obs) \<noteq> []"
proof -
  have "obs ! i ! j \<in> set (concat obs)"
    using assms(1,2) by (metis concat_map_singleton in_set_conv_nth nth_mem set_concat UN_I)
  then show ?thesis using assms(3) by auto
qed

lemma score_matrix_Fin:
  assumes len: "length obs = n" and rows: "\<forall>row \<in> set obs. length row = n"
  shows "score_matrix n (map (map (map Fin)) obs) =
           Inr (map (\<lambda>i. map (\<lambda>j. Fin (spec_score obs i j)) [0..<n]) [0..<n])"
proof -
  let ?table = "map (map (map Fin)) obs"
  let ?A0 = "replicate n (replicate n (Fin 0))"
  have row_len: "\<forall>i < length ?table. length (?table ! i) = n"
    using rows by simp
  have "\<forall>i \<in> set [0..<n]. i < length ?table \<and> i < length ?A0"
    using len by simp
  moreover have "\<forall>i < length ?A0. length (?A0 ! i) = n"
    by simp
  ultimately obtain A' where A':
    "fill_rows ?table n ?A0 [0..<n] = Inr A'" "length A' = length ?A0"
    "\<forall>i < length ?A0. length (A' ! i) = n \<and>
        (\<forall>j < n. A' ! i ! j =
           (if i \<in> set [0..<n] \<and> ?table ! i ! j \<noteq> []
            then score (?table ! i ! j) (all_psnr ?table) else ?A0 ! i ! j))"
    using fill_rows_nth [OF _ row_len, of "[0..<n]" ?A0] by blast
  have entry: "A' ! i ! j = Fin (spec_score obs i j)" if "i < n" "j < n" for i j
  proof -
    have ij: "i < length obs" "j < length (obs ! i)"
      using that len rows by simp_all
    have t: "?table ! i ! j = map Fin (obs ! i ! j)"
      using ij by simp
    have "A' ! i ! j = (if obs ! i ! j \<noteq> [] then score (map Fin (obs ! i ! j)) (all_psnr ?table)
        else Fin 0)"
      using A'(3) that t by simp
    moreover have "score (map Fin (obs ! i ! j)) (all_psnr ?table)
        = Fin ((mean (obs ! i ! j) - mean (concat (concat obs))) / (std (concat (concat obs)) + 1 / 10 ^ 9))"
      if "obs ! i ! j \<noteq> []"
      unfolding all_psnr_Fin
      by (rule score_Fin [OF that concat_concat_nonempty [OF ij that]])
    ultimately show ?thesis
      by (simp add: spec_score_def)
  qed
  have "A' = map (\<lambda>i. map (\<lambda>j. Fin (spec_score obs i j)) [0..<n]) [0..<n]"
  proof (rule nth_equalityI)
    show "length A' = length (map (\<lambda>i. map (\<lambda>j. Fin (spec_score obs i j)) [0..<n]) [0..<n])"
      using A'(2) by simp
  next
    fix i assume "i < length A'"
    then have i: "i < n" using A'(2) by simp
    have "A' ! i = map (\<lambda>j. Fin (spec_score obs i j)) [0..<n]"
      using A'(3) i entry by (intro nth_equalityI) simp_all
    then show "A' ! i = map (\<lambda>i. map (\<lambda>j. Fin (spec_score obs i j)) [0..<n]) [0..<n] ! i"
      using i by simp
  qed
  then show ?thesis
    using A'(1) by (simp add: score_matrix_def)
qed

lemma metric_sums_Fin:
  assumes "i < n"
  shows "metric_sums (map (\<lambda>i. map (\<lambda>j. Fin (a i j)) [0..<n]) [0..<n]) n i =
           (Fin (\<Sum>j<n. a i j), Fin (- (\<Sum>j<n. a j i)))"
proof -
  let ?A = "map (\<lambda>i. map (\<lambda>j. Fin (a i j)) [0..<n]) [0..<n]"
  let ?f = "\<lambda>(metric_ct, metric_cd) j. (fadd metric_ct (?A ! i ! j), fsub metric_cd (?A ! j ! i))"
  have "m \<le> n \<Longrightarrow> foldl ?f (Fin 0, Fin 0) [0..<m] = (Fin (\<Sum>j<m. a i j), Fin (- (\<Sum>j<m. a j i)))" for m
  proof (induction m)
    case 0
    then show ?case by simp
  next
    case (Suc m)
    then have "m < n" by simp
    then show ?case using Suc assms by (simp add: fsub_def)
  qed
  then show ?thesis by (simp add: metric_sums_def)
qed

text \<open>
  C4. For an \<open>N \<times> N\<close> table of finite PSNR observations (the floating-point values
  that are real numbers), the matrix \<open>A\<close> that the loops build holds in every cell the
  score of the specification, zero where the cell has no observation, and the rows of the
  report hold for every channel \<open>i\<close> the contribution-to score \<open>(1/N) * (\<Sum>j. A[i][j])\<close> and
  the contribution-from score \<open>- (1/N) * (\<Sum>j. A[j][i])\<close>.
\<close>

theorem contribution_scores:
  assumes len: "length obs = n" and rows: "\<forall>row \<in> set obs. length row = n"
    and channels: "tsf_num_channel (network p) = n"
  shows "score_matrix n (map (map (map Fin)) obs) =
           Inr (map (\<lambda>i. map (\<lambda>j. Fin (spec_score obs i j)) [0..<n]) [0..<n]) \<and>
         sequence_contribution p (Some (map (map (map Fin)) obs)) =
           Inr (map (\<lambda>i. (i, Fin (1 / real n * (\<Sum>j<n. spec_score obs i j)),
                             Fin (- (1 / real n * (\<Sum>j<n. spec_score obs j i))))) [0..<n])"
proof -
  have "sbsc_rows (map (\<lambda>i. map (\<lambda>j. Fin (spec_score obs i j)) [0..<n]) [0..<n]) n =
      map (\<lambda>i. (i, Fin (1 / real n * (\<Sum>j<n. spec_score obs i j)),
                   Fin (- (1 / real n * (\<Sum>j<n. spec_score obs j i))))) [0..<n]"
    unfolding sbsc_rows_def
    by (rule map_cong [OF refl]) (simp add: metric_sums_Fin)
  then show ?thesis
    by (simp add: sequence_contribution_def channels score_matrix_Fin [OF len rows])
qed

lemma spec_vals:
  "spec_score [[[1], [3]], [[], []]] 0 0 = - (1000000000 / 1000000001)"
  "spec_score [[[1], [3]], [[], []]] 0 (Suc 0) = 1000000000 / 1000000001"
  "spec_score [[[1], [3]], [[], []]] (Suc 0) 0 = 0"
  "spec_score [[[1], [3]], [[], []]] (Suc 0) (Suc 0) = 0"
  by (simp_all add: spec_score_def mean_def std_def)

theorem contribution_scores_witness:
  "sequence_contribution (example_predictor (identity_network\<lparr>tsf_num_channel := 2\<rparr>) False Cpu)
     (Some [[[Fin 1], [Fin 3]], [[], []]])
   = Inr [(0, Fin 0, Fin (500000000 / 1000000001)), (1, Fin 0, Fin (- (500000000 / 1000000001)))]"
proof -
  have h1: "length [[[1], [3]], [[], []] :: real list list] = 2" by simp
  have h2: "\<forall>row \<in> set [[[1], [3]], [[], []] :: real list list]. length row = 2" by simp
  have h3: "tsf_num_channel (network (example_predictor (identity_network\<lparr>tsf_num_channel := 2\<rparr>) False Cpu)) = 2"
    by (simp add: example_predictor_def)
  have two: "[0..<2] = [0, Suc 0]" "{..<2::nat} = {0, Suc 0}" by (auto simp: upt_conv_Cons)
  show ?thesis
    using contribution_scores [OF h1 h2 h3]
    by (simp add: two spec_vals)
qed

section \<open>A predictor without the PSNR table\<close>












text \<open>
  A case with a null \<open>ofile\<close> and at least one target never gets through the loop.
\<close>

lemma null_ofile_case_fails:
  assumes "pre_ofile pre = None" and "0 < num_channel (pre_properties pre)"
  shows "\<exists>e. case_loop ext p save_probabilities st (pre # rest) = Inl e"
proof -
  have "[0..<num_channel (pre_properties pre)] = 0 # [1..<num_channel (pre_properties pre)]"
    using assms(2) by (simp add: upt_conv_Cons)
  moreover have "\<exists>e. target_step ext p save_probabilities pre st 0 = Inl e"
    using assms(1)
    by (auto simp: target_step_def join_under_def bind_err_def Let_def
        split: sum.splits prod.splits)
  ultimately show ?thesis
    by (auto simp: bind_err_def)
qed

text \<open>
  C3 fails on the code: a case whose \<open>ofile\<close> is null is not returned in memory. The loop
  over the targets joins \<open>ofile\<close> with a directory name before it looks at \<open>ofile\<close>, which
  raises \<open>TypeError\<close>.
\<close>

theorem null_ofile_type_error:
  "predict_from_data_iterator (example_externals (\<lambda>d. False))
     (example_predictor identity_network False Cpu) [example_case None] False = Inl TypeError"
proof -
  have "case_loop (example_externals (\<lambda>d. False)) (example_predictor identity_network False Cpu)
      False \<lparr>submitted = [], psnr_table = Some [[[]]], made_dirs = []\<rparr> [example_case None]
      = Inl TypeError"
    by code_simp
  then show ?thesis
    by (simp add: predict_from_data_iterator_def example_predictor_def)
qed

section \<open>Prediction of a single array (\<open>predict_single_npy_array\<close>)\<close>

text \<open>
  C2 fails on the code: \<open>predict_logits_from_preprocessed_data\<close> requires the target code,
  which the call of line 565 does not give, so every call of \<open>predict_single_npy_array\<close>
  raises \<open>TypeError\<close> once the case is preprocessed, and nothing is exported or returned.
\<close>

theorem predict_single_npy_array_type_error:
  "predict_single_npy_array ext preprocess p input_image image_properties
     segmentation_previous_stage output_file_truncated save_or_return_probabilities
   = Inl TypeError"
  by (simp add: predict_single_npy_array_def call_predict_logits_from_preprocessed_data_def)

end
